theory Spec2Isabelle
  imports Main
begin

section \<open>Media requests: the route handlers of server/routes/request.ts\<close>

text \<open>
  The module holds five route handlers over two persisted tables (Media and MediaRequest)
  and one external metadata client. Each handler is embedded as a function from the caller,
  the inputs of the call and the store to a response (an error \<open>{status, message}\<close> passed
  to \<open>next\<close>, or a success status with its JSON body) and the store after the call.

  \<^item> \<open>req.user\<close> is the authenticated caller. The routes are mounted for authenticated
    callers only, so the optional chaining \<open>req.user?.\<close> always finds a user.
  \<^item> The route guards \<open>isAuthenticated(Permission.REQUEST)\<close> and
    \<open>isAuthenticated(Permission.MANAGE_REQUESTS)\<close> run before the handler bodies and are
    not part of them; the functions below are the handler bodies.
  \<^item> The store operations (\<open>find\<close>, \<open>findOne\<close>, \<open>findOneOrFail\<close>, \<open>save\<close>, \<open>delete\<close>)
    are modelled as operations on lists of rows that do not fail by themselves.
\<close>

subsection \<open>Data model\<close>

datatype Permission = REQUEST | AUTO_APPROVE | MANAGE_REQUESTS

text \<open>
  A user is its id and the permission evaluator \<open>user.hasPermission(p)\<close>, which is an
  external collaborator of this module and is kept abstract.
\<close>

record User =
  u_id :: nat
  hasPermission :: "Permission \<Rightarrow> bool"

datatype MediaRequestStatus = PENDING | APPROVED | DECLINED

datatype MediaType = MOVIE | TV

text \<open>
  Modelled from the spec: the enum MediaStatus of constants/media, of which this module
  only writes \<open>MediaStatus.PENDING\<close>; the other members are not named here.
\<close>

datatype MediaStatus = MediaStatus_PENDING | MediaStatus_OTHER nat

text \<open>
  Modelled from the spec: the entities Media, MediaRequest and SeasonRequest (their
  declarations are not part of this module). A row carries the fields the handlers read and
  write. \<open>r_media\<close> and \<open>r_requestedBy\<close> are the foreign keys of the relations
  \<open>media\<close> and \<open>requestedBy\<close>; the seasons of a request are owned by it and loaded with it.
  The \<open>mediaType\<close> of a Media row is the string of the request body as it was stored.
  \<open>r_status\<close> is optional because the status-change handler can assign the JavaScript
  value \<open>undefined\<close> (\<open>None\<close>) to it on the loaded entity.
\<close>

record Media =
  m_id :: nat
  tmdbId :: int
  tvdbId :: "int option"
  m_status :: MediaStatus
  mediaType :: string

record SeasonRequest =
  seasonNumber :: int
  s_status :: MediaRequestStatus

record MediaRequest =
  r_id :: nat
  r_type :: MediaType
  r_media :: nat
  r_requestedBy :: nat
  r_modifiedBy :: "nat option"
  r_status :: "MediaRequestStatus option"
  r_seasons :: "SeasonRequest list"

text \<open>
  The persisted state: both tables in insertion order and the next generated primary key of
  each table.
\<close>

record store =
  medias :: "Media list"
  requests :: "MediaRequest list"
  nextMediaId :: nat
  nextRequestId :: nat

text \<open>An error handed to \<open>next\<close>: \<open>{status, message}\<close>.\<close>

type_synonym http_error = "nat \<times> string"

subsection \<open>The metadata client\<close>

text \<open>
  The part of a title's metadata that the handler reads: \<open>tmdbMedia.id\<close> and
  \<open>tmdbMedia.external_ids.tvdb_id\<close>. The client is a parameter of the handler; a lookup
  that throws is \<open>Inl\<close> of the error's message.
\<close>

record TmdbDetails =
  d_id :: int
  d_tvdb_id :: "int option"

record TheMovieDb =
  getMovie :: "int \<Rightarrow> string + TmdbDetails"
  getTvShow :: "int \<Rightarrow> string + TmdbDetails"

subsection \<open>Store operations\<close>

text \<open>\<open>mediaRepository.findOne({ where: { tmdbId } })\<close>: the first row with that tmdbId.\<close>

definition findOne_media :: "int \<Rightarrow> store \<Rightarrow> Media option" where
  "findOne_media k st = find (\<lambda>m. tmdbId m = k) (medias st)"

text \<open>The relation \<open>requests\<close> of a Media row: the requests that reference it.\<close>

definition requests_of :: "Media \<Rightarrow> store \<Rightarrow> MediaRequest list" where
  "requests_of m st = filter (\<lambda>r. r_media r = m_id m) (requests st)"

text \<open>
  \<open>mediaRepository.save(media)\<close> of a new Media: the row gets the next primary key and
  is appended. The saved entity is returned with the store.
\<close>

definition save_media :: "Media \<Rightarrow> store \<Rightarrow> Media \<times> store" where
  "save_media m st =
     (let m' = m\<lparr>m_id := nextMediaId st\<rparr>
      in (m', st\<lparr>medias := medias st @ [m'], nextMediaId := Suc (nextMediaId st)\<rparr>))"

text \<open>\<open>requestRepository.save(request)\<close> of a new MediaRequest.\<close>

definition insert_request :: "MediaRequest \<Rightarrow> store \<Rightarrow> MediaRequest \<times> store" where
  "insert_request r st =
     (let r' = r\<lparr>r_id := nextRequestId st\<rparr>
      in (r', st\<lparr>requests := requests st @ [r'], nextRequestId := Suc (nextRequestId st)\<rparr>))"

text \<open>
  \<open>requestRepository.save(request)\<close> of a loaded MediaRequest: the row with the
  entity's id is updated from the entity. \<open>save\<close> writes the properties of the entity
  that have a value and skips a property that is \<open>undefined\<close>, so an entity whose status
  is \<open>undefined\<close> leaves the status of the row as it is.
\<close>

definition update_request :: "MediaRequest \<Rightarrow> store \<Rightarrow> store" where
  "update_request r st =
     st\<lparr>requests :=
          map (\<lambda>x. if r_id x = r_id r
                   then (case r_status r of None \<Rightarrow> r\<lparr>r_status := r_status x\<rparr> | Some s \<Rightarrow> r)
                   else x)
              (requests st)\<rparr>"

text \<open>\<open>requestRepository.findOneOrFail({ where: { id } })\<close>; \<open>None\<close> is the thrown failure.\<close>

definition findOneOrFail :: "nat \<Rightarrow> store \<Rightarrow> MediaRequest option" where
  "findOneOrFail rid st = find (\<lambda>r. r_id r = rid) (requests st)"

text \<open>\<open>requestRepository.delete(id)\<close>.\<close>

definition delete_request :: "nat \<Rightarrow> store \<Rightarrow> store" where
  "delete_request rid st = st\<lparr>requests := filter (\<lambda>r. r_id r \<noteq> rid) (requests st)\<rparr>"

text \<open>\<open>order: { id: 'DESC' }, take: 20\<close>.\<close>

definition order_id_desc :: "MediaRequest list \<Rightarrow> MediaRequest list" where
  "order_id_desc rs = rev (sort_key r_id rs)"

subsection \<open>GET /\<close>

text \<open>
  Both queries order by descending id and take 20. The \<open>media\<close> relation that is loaded
  with each request is the row its \<open>r_media\<close> references and is not repeated in the
  response here.
\<close>

definition list_requests :: "User \<Rightarrow> store \<Rightarrow> (http_error + nat \<times> MediaRequest list) \<times> store" where
  "list_requests user st =
     (let found =
        (if hasPermission user MANAGE_REQUESTS
         then take 20 (order_id_desc (requests st))
         else take 20 (order_id_desc (filter (\<lambda>r. r_requestedBy r = u_id user) (requests st))))
      in (Inr (200, found), st))"

subsection \<open>POST /\<close>

text \<open>
  The request body: \<open>mediaType\<close>, \<open>mediaId\<close> and \<open>seasons\<close> (absent, i.e.
  \<open>undefined\<close>, is \<open>None\<close>).
\<close>

record CreateBody =
  body_mediaType :: string
  body_mediaId :: int
  body_seasons :: "int list option"

text \<open>
  The status given to a new request and to each of its seasons: approved for a caller with
  the auto-approve permission, pending otherwise.
\<close>

definition initial_status :: "User \<Rightarrow> MediaRequestStatus" where
  "initial_status user = (if hasPermission user AUTO_APPROVE then APPROVED else PENDING)"

text \<open>
  The \<open>reduce\<close> over \<open>media.requests\<close> (lines 89 to 95): the season numbers of all loaded
  requests, in order.
\<close>

definition combine_seasons :: "MediaRequest list \<Rightarrow> int list" where
  "combine_seasons rs =
     foldl (\<lambda>seasons request. seasons @ map seasonNumber (r_seasons request)) [] rs"

text \<open>
  Lines 53 to 66: look the Media up by the body's mediaId, and create it from the metadata
  when it is absent. The result is the Media, its loaded relation \<open>media.requests\<close>
  (\<open>None\<close> for a Media that was just built, whose \<open>requests\<close> is \<open>undefined\<close>) and
  the store.
\<close>

definition lookup_or_create ::
  "TmdbDetails \<Rightarrow> CreateBody \<Rightarrow> store \<Rightarrow> Media \<times> MediaRequest list option \<times> store" where
  "lookup_or_create tmdbMedia body st =
     (case findOne_media (body_mediaId body) st of
        Some m \<Rightarrow> (m, Some (requests_of m st), st)
      | None \<Rightarrow>
          (let (m', st') =
             save_media \<lparr>m_id = 0, tmdbId = d_id tmdbMedia, tvdbId = d_tvdb_id tmdbMedia,
                         m_status = MediaStatus_PENDING, mediaType = body_mediaType body\<rparr> st
           in (m', None, st')))"

text \<open>Lines 68 to 80: the movie branch.\<close>

definition create_movie ::
  "User \<Rightarrow> Media \<Rightarrow> store \<Rightarrow> (http_error + nat \<times> MediaRequest \<times> Media) \<times> store" where
  "create_movie user media st =
     (let (request, st') =
        insert_request \<lparr>r_id = 0, r_type = MOVIE, r_media = m_id media,
                        r_requestedBy = u_id user, r_modifiedBy = None,
                        r_status = Some (initial_status user), r_seasons = []\<rparr> st
      in (Inr (201, request, media), st'))"

text \<open>
  Lines 81 to 130: the tv branch. Without \<open>seasons\<close> in the body,
  \<open>requestedSeasons.filter\<close> throws a TypeError, which the handler's \<open>catch\<close> turns
  into a 500 with the error's message.
\<close>

definition create_tv ::
  "User \<Rightarrow> CreateBody \<Rightarrow> Media \<Rightarrow> MediaRequest list option \<Rightarrow> store \<Rightarrow>
     (http_error + nat \<times> MediaRequest \<times> Media) \<times> store" where
  "create_tv user body media media_requests st =
     (case body_seasons body of
        None \<Rightarrow> (Inl (500, ''Cannot read properties of undefined (reading filter)''), st)
      | Some requestedSeasons \<Rightarrow>
          (let existingSeasons =
                 (case media_requests of None \<Rightarrow> [] | Some rs \<Rightarrow> combine_seasons rs);
               finalSeasons = filter (\<lambda>rs. rs \<notin> set existingSeasons) requestedSeasons
           in if length finalSeasons = 0
              then (Inl (500, ''No seasons available to request''), st)
              else
                (let (request, st') =
                   insert_request
                     \<lparr>r_id = 0, r_type = TV, r_media = m_id media,
                      r_requestedBy = u_id user, r_modifiedBy = None,
                      r_status = Some (initial_status user),
                      r_seasons = map (\<lambda>sn. \<lparr>seasonNumber = sn, s_status = initial_status user\<rparr>)
                                      finalSeasons\<rparr> st
                 in (Inr (201, request, media), st'))))"

text \<open>The handler of POST /. The response body is the saved request with its \<open>media\<close>.\<close>

definition create_request ::
  "TheMovieDb \<Rightarrow> User \<Rightarrow> CreateBody \<Rightarrow> store \<Rightarrow>
     (http_error + nat \<times> MediaRequest \<times> Media) \<times> store" where
  "create_request tmdb user body st =
     (case (if body_mediaType body = ''movie''
            then getMovie tmdb (body_mediaId body)
            else getTvShow tmdb (body_mediaId body)) of
        Inl msg \<Rightarrow> (Inl (500, msg), st)
      | Inr tmdbMedia \<Rightarrow>
          (let (media, media_requests, st') = lookup_or_create tmdbMedia body st
           in if body_mediaType body = ''movie'' then create_movie user media st'
              else if body_mediaType body = ''tv''
                then create_tv user body media media_requests st'
              else (Inl (500, ''Invalid media type''), st')))"

subsection \<open>GET /:requestId\<close>

text \<open>
  \<open>requestId\<close> is the number \<open>Number(req.params.requestId)\<close>; a path segment that is
  not the id of a row finds nothing. The relations \<open>requestedBy\<close> and \<open>modifiedBy\<close>
  that are loaded with the request are the users its fields reference.
\<close>

definition get_request :: "nat \<Rightarrow> store \<Rightarrow> (http_error + nat \<times> MediaRequest) \<times> store" where
  "get_request requestId st =
     (case findOneOrFail requestId st of
        None \<Rightarrow> (Inl (404, ''Request not found''), st)
      | Some request \<Rightarrow> (Inr (200, request), st))"

subsection \<open>DELETE /:requestId\<close>

text \<open>
  \<open>request.status > 0\<close> compares the numeric value of the status. The enum's declaration
  (constants/media) is not part of this module, so the numeric value of each member is the
  parameter \<open>sv\<close>. For the value \<open>undefined\<close> the comparison is false.
\<close>

definition status_gt_0 :: "(MediaRequestStatus \<Rightarrow> int) \<Rightarrow> MediaRequestStatus option \<Rightarrow> bool" where
  "status_gt_0 sv s = (case s of None \<Rightarrow> False | Some x \<Rightarrow> sv x > 0)"

definition remove_request ::
  "(MediaRequestStatus \<Rightarrow> int) \<Rightarrow> User \<Rightarrow> nat \<Rightarrow> store \<Rightarrow>
     (http_error + nat \<times> MediaRequest) \<times> store" where
  "remove_request sv user requestId st =
     (case findOneOrFail requestId st of
        None \<Rightarrow> (Inl (404, ''Request not found''), st)
      | Some request \<Rightarrow>
          if \<not> hasPermission user MANAGE_REQUESTS \<and>
             (r_requestedBy request \<noteq> u_id user \<or> status_gt_0 sv (r_status request))
          then (Inl (401, ''You do not have permission to remove this request''), st)
          else (Inr (200, request), delete_request (r_id request) st))"

subsection \<open>GET /:requestId/:status\<close>

text \<open>
  The \<open>switch\<close> over the path segment (lines 196 to 208). It has no default case: for any
  other string \<open>newStatus\<close> stays \<open>undefined\<close>.
\<close>

definition newStatus :: "string \<Rightarrow> MediaRequestStatus option" where
  "newStatus s =
     (if s = ''pending'' then Some PENDING
      else if s = ''approve'' then Some APPROVED
      else if s = ''decline'' then Some DECLINED
      else None)"

definition change_status :: "nat \<Rightarrow> string \<Rightarrow> store \<Rightarrow> (http_error + nat \<times> MediaRequest) \<times> store" where
  "change_status requestId status st =
     (case findOneOrFail requestId st of
        None \<Rightarrow> (Inl (404, ''Request not found''), st)
      | Some request \<Rightarrow>
          (let request' = request\<lparr>r_status := newStatus status\<rparr>
           in (Inr (200, request'), update_request request' st)))"

subsection \<open>Sequences of Create calls\<close>

text \<open>Create calls run one after the other; the responses are collected in call order.\<close>

fun create_all ::
  "TheMovieDb \<Rightarrow> (User \<times> CreateBody) list \<Rightarrow> store \<Rightarrow>
     (http_error + nat \<times> MediaRequest \<times> Media) list \<times> store" where
  "create_all tmdb [] st = ([], st)"
| "create_all tmdb ((user, body) # calls) st =
     (let (res, st') = create_request tmdb user body st;
          (ress, st'') = create_all tmdb calls st'
      in (res # ress, st''))"

text \<open>
  A response is about the Media \<open>m\<close>: if it is a success, its body is a request that
  references \<open>m\<close>, with \<open>m\<close> attached.
\<close>

definition answers_media :: "(http_error + nat \<times> MediaRequest \<times> Media) \<Rightarrow> Media \<Rightarrow> bool" where
  "answers_media res m =
     (case res of Inl e \<Rightarrow> True | Inr (code, req, m') \<Rightarrow> m' = m \<and> r_media req = m_id m)"

text \<open>The requests that a list of responses reports as created, in call order.\<close>

fun created_requests ::
  "(http_error + nat \<times> MediaRequest \<times> Media) list \<Rightarrow> MediaRequest list" where
  "created_requests [] = []"
| "created_requests (Inl e # ress) = created_requests ress"
| "created_requests (Inr (code, req, m) # ress) = req # created_requests ress"

subsection \<open>Properties of the store\<close>

text \<open>
  What the tables' primary and foreign keys guarantee: ids are unique and were generated
  before the next id, and every request references a Media row.
\<close>

definition wf_store :: "store \<Rightarrow> bool" where
  "wf_store st \<longleftrightarrow>
     distinct (map m_id (medias st)) \<and>
     distinct (map r_id (requests st)) \<and>
     (\<forall>m\<in>set (medias st). m_id m < nextMediaId st) \<and>
     (\<forall>r\<in>set (requests st). r_id r < nextRequestId st \<and> r_media r \<in> set (map m_id (medias st)))"

text \<open>
  No season number is requested twice for one Media: over all requests of each Media row,
  the season numbers are pairwise different.
\<close>

definition seasons_distinct :: "store \<Rightarrow> bool" where
  "seasons_distinct st \<longleftrightarrow>
     (\<forall>m\<in>set (medias st).
        distinct (concat (map (\<lambda>r. map seasonNumber (r_seasons r)) (requests_of m st))))"

text \<open>Every stored request has a status.\<close>

definition statuses_defined :: "store \<Rightarrow> bool" where
  "statuses_defined st \<longleftrightarrow> (\<forall>r\<in>set (requests st). r_status r \<noteq> None)"

subsection \<open>Example data\<close>

text \<open>The values a TypeScript numeric enum gets when none are written.\<close>

definition enum_values :: "MediaRequestStatus \<Rightarrow> int" where
  "enum_values s = (case s of PENDING \<Rightarrow> 0 | APPROVED \<Rightarrow> 1 | DECLINED \<Rightarrow> 2)"

text \<open>A metadata client that knows every id and answers with the id it was asked for.\<close>

definition tmdb_echo :: TheMovieDb where
  "tmdb_echo = \<lparr>getMovie = (\<lambda>k. Inr \<lparr>d_id = k, d_tvdb_id = None\<rparr>),
                getTvShow = (\<lambda>k. Inr \<lparr>d_id = k, d_tvdb_id = None\<rparr>)\<rparr>"

definition empty_store :: store where
  "empty_store = \<lparr>medias = [], requests = [], nextMediaId = 1, nextRequestId = 1\<rparr>"

text \<open>A caller with the request permission only, and one with every permission.\<close>

definition requester :: User where
  "requester = \<lparr>u_id = 7, hasPermission = (\<lambda>p. p = REQUEST)\<rparr>"

definition manager :: User where
  "manager = \<lparr>u_id = 1, hasPermission = (\<lambda>p. True)\<rparr>"

definition movie_550 :: CreateBody where
  "movie_550 = \<lparr>body_mediaType = ''movie'', body_mediaId = 550, body_seasons = None\<rparr>"

definition book_550 :: CreateBody where
  "book_550 = \<lparr>body_mediaType = ''book'', body_mediaId = 550, body_seasons = None\<rparr>"

definition tv_seasons :: "int list \<Rightarrow> CreateBody" where
  "tv_seasons ss = \<lparr>body_mediaType = ''tv'', body_mediaId = 1399, body_seasons = Some ss\<rparr>"

definition media_550 :: Media where
  "media_550 = \<lparr>m_id = 1, tmdbId = 550, tvdbId = None, m_status = MediaStatus_PENDING,
                mediaType = ''movie''\<rparr>"

definition media_book :: Media where
  "media_book = \<lparr>m_id = 1, tmdbId = 550, tvdbId = None, m_status = MediaStatus_PENDING,
                 mediaType = ''book''\<rparr>"

definition media_1399 :: Media where
  "media_1399 = \<lparr>m_id = 1, tmdbId = 1399, tvdbId = None, m_status = MediaStatus_PENDING,
                 mediaType = ''tv''\<rparr>"

definition request_1 :: MediaRequest where
  "request_1 = \<lparr>r_id = 1, r_type = MOVIE, r_media = 1, r_requestedBy = 7, r_modifiedBy = None,
                r_status = Some PENDING, r_seasons = []\<rparr>"

definition request_2 :: MediaRequest where
  "request_2 = \<lparr>r_id = 2, r_type = MOVIE, r_media = 1, r_requestedBy = 1, r_modifiedBy = None,
                r_status = Some APPROVED, r_seasons = []\<rparr>"

definition store_1 :: store where
  "store_1 = \<lparr>medias = [media_550], requests = [request_1], nextMediaId = 2, nextRequestId = 2\<rparr>"

definition store_2 :: store where
  "store_2 = \<lparr>medias = [media_550], requests = [request_1, request_2],
              nextMediaId = 2, nextRequestId = 3\<rparr>"

text \<open>A tv request of the plain caller for the given seasons of Media 1.\<close>

definition tv_request :: "nat \<Rightarrow> int list \<Rightarrow> MediaRequest" where
  "tv_request n ss =
     \<lparr>r_id = n, r_type = TV, r_media = 1, r_requestedBy = 7, r_modifiedBy = None,
      r_status = Some PENDING,
      r_seasons = map (\<lambda>sn. \<lparr>seasonNumber = sn, s_status = PENDING\<rparr>) ss\<rparr>"

definition store_tv :: "MediaRequest list \<Rightarrow> store" where
  "store_tv rs = \<lparr>medias = [media_1399], requests = rs, nextMediaId = 2,
                  nextRequestId = Suc (length rs)\<rparr>"

section \<open>Auxiliary facts\<close>

subsection \<open>Lists of rows\<close>

lemma find_key_Some: "find (\<lambda>r. f r = k) xs = Some x \<Longrightarrow> f x = k \<and> x \<in> set xs"
  by (induction xs) (auto split: if_splits)

lemma find_key_removed: "find (\<lambda>r. f r = k) (filter (\<lambda>r. f r \<noteq> k) xs) = None"
  by (induction xs) auto

lemma find_key_replaced:
  "find (\<lambda>r. f r = k) xs = Some x \<Longrightarrow> f y = k \<Longrightarrow>
   find (\<lambda>r. f r = k) (map (\<lambda>r. if f r = k then y else r) xs) = Some y"
  by (induction xs) (auto split: if_splits)

lemma replace_twice:
  "f y = k \<Longrightarrow>
   map (\<lambda>r. if f r = k then y else r) (map (\<lambda>r. if f r = k then y else r) xs)
     = map (\<lambda>r. if f r = k then y else r) xs"
  by (induction xs) auto

lemma find_key_mapped:
  "find (\<lambda>r. f r = k) xs = Some x \<Longrightarrow> f (g x) = k \<Longrightarrow>
   find (\<lambda>r. f r = k) (map (\<lambda>r. if f r = k then g r else r) xs) = Some (g x)"
  by (induction xs) (auto split: if_splits)

lemma map_is_update:
  "distinct (map f xs) \<Longrightarrow> find (\<lambda>r. f r = k) xs = Some x \<Longrightarrow>
   \<exists>i<length xs. xs ! i = x \<and> map (\<lambda>r. if f r = k then g r else r) xs = xs[i := g x]"
proof (induction xs)
  case Nil
  then show ?case by simp
next
  case (Cons a xs)
  show ?case
  proof (cases "f a = k")
    case True
    then have ax: "a = x" using Cons.prems(2) by simp
    have "f a \<notin> f ` set xs" using Cons.prems(1) by simp
    then have "\<forall>r\<in>set xs. f r \<noteq> k" using True by (metis imageI)
    then have "map (\<lambda>r. if f r = k then g r else r) xs = xs"
      by (induction xs) auto
    then have "map (\<lambda>r. if f r = k then g r else r) (a # xs) = (a # xs)[0 := g x]"
      using True ax by simp
    then show ?thesis using ax by (intro exI[of _ 0]) simp
  next
    case False
    then have "find (\<lambda>r. f r = k) xs = Some x" using Cons.prems(2) by simp
    moreover have "distinct (map f xs)" using Cons.prems(1) by simp
    ultimately obtain i where i: "i < length xs" "xs ! i = x"
      "map (\<lambda>r. if f r = k then g r else r) xs = xs[i := g x]"
      using Cons.IH by blast
    then show ?thesis using False by (intro exI[of _ "Suc i"]) simp
  qed
qed

subsection \<open>Saving a loaded request\<close>

lemma update_request_defined:
  "r_status r = Some s \<Longrightarrow>
   update_request r st =
     st\<lparr>requests := map (\<lambda>x. if r_id x = r_id r then r else x) (requests st)\<rparr>"
  by (simp add: update_request_def)

lemma update_request_undefined:
  "r_status r = None \<Longrightarrow>
   update_request r st =
     st\<lparr>requests := map (\<lambda>x. if r_id x = r_id r then r\<lparr>r_status := r_status x\<rparr> else x)
                         (requests st)\<rparr>"
  by (simp add: update_request_def)

subsection \<open>Ordering by id\<close>

lemma sorted_order_id_desc: "sorted_wrt (\<lambda>a b. r_id b \<le> r_id a) (order_id_desc rs)"
proof -
  have "sorted (map r_id (sort_key r_id rs))" by simp
  then have "sorted_wrt (\<lambda>a b. r_id a \<le> r_id b) (sort_key r_id rs)"
    by (simp add: sorted_wrt_map)
  then show ?thesis
    unfolding order_id_desc_def by (simp add: sorted_wrt_rev)
qed

lemma set_order_id_desc: "set (order_id_desc rs) = set rs"
  by (simp add: order_id_desc_def)

lemma sorted_wrt_take_drop:
  assumes "sorted_wrt P ys" "a \<in> set (take n ys)" "b \<in> set (drop n ys)"
  shows "P a b"
proof -
  have "sorted_wrt P (take n ys @ drop n ys)" using assms(1) by simp
  then show ?thesis using assms(2,3) unfolding sorted_wrt_append by blast
qed

lemma left_out_is_older:
  assumes "x \<in> set rs" "x \<notin> set (take n (order_id_desc rs))"
  shows "length (take n (order_id_desc rs)) = n \<and>
         (\<forall>y\<in>set (take n (order_id_desc rs)). r_id x \<le> r_id y)"
proof -
  let ?ys = "order_id_desc rs"
  have "x \<in> set (take n ?ys @ drop n ?ys)" using assms(1) by (simp add: set_order_id_desc)
  then have d: "x \<in> set (drop n ?ys)" using assms(2) by (metis Un_iff set_append)
  then have "n < length ?ys" by (metis drop_all empty_iff list.set(1) not_le)
  then have "length (take n ?ys) = n" by simp
  moreover have "\<forall>y\<in>set (take n ?ys). r_id x \<le> r_id y"
    using sorted_wrt_take_drop[OF sorted_order_id_desc _ d] by blast
  ultimately show ?thesis by blast
qed

subsection \<open>The steps of Create\<close>

lemma combine_seasons_foldl:
  "foldl (\<lambda>seasons request. seasons @ map seasonNumber (r_seasons request)) acc rs
     = acc @ concat (map (\<lambda>r. map seasonNumber (r_seasons r)) rs)"
  by (induction rs arbitrary: acc) auto

lemma combine_seasons_concat:
  "combine_seasons rs = concat (map (\<lambda>r. map seasonNumber (r_seasons r)) rs)"
  by (simp add: combine_seasons_def combine_seasons_foldl)

lemma lookup_or_create_found:
  "findOne_media (body_mediaId body) st = Some m \<Longrightarrow>
   lookup_or_create d body st = (m, Some (requests_of m st), st)"
  by (simp add: lookup_or_create_def)

lemma lookup_or_create_new:
  "findOne_media (body_mediaId body) st = None \<Longrightarrow>
   lookup_or_create d body st =
     (\<lparr>m_id = nextMediaId st, tmdbId = d_id d, tvdbId = d_tvdb_id d,
       m_status = MediaStatus_PENDING, mediaType = body_mediaType body\<rparr>,
      None,
      st\<lparr>medias := medias st @
            [\<lparr>m_id = nextMediaId st, tmdbId = d_id d, tvdbId = d_tvdb_id d,
              m_status = MediaStatus_PENDING, mediaType = body_mediaType body\<rparr>],
         nextMediaId := Suc (nextMediaId st)\<rparr>)"
  by (simp add: lookup_or_create_def save_media_def Let_def)

lemma create_movie_eq:
  "create_movie user media st =
     (Inr (201, \<lparr>r_id = nextRequestId st, r_type = MOVIE, r_media = m_id media,
                 r_requestedBy = u_id user, r_modifiedBy = None,
                 r_status = Some (initial_status user), r_seasons = []\<rparr>, media),
      st\<lparr>requests := requests st @
            [\<lparr>r_id = nextRequestId st, r_type = MOVIE, r_media = m_id media,
              r_requestedBy = u_id user, r_modifiedBy = None,
              r_status = Some (initial_status user), r_seasons = []\<rparr>],
         nextRequestId := Suc (nextRequestId st)\<rparr>)"
  by (simp add: create_movie_def insert_request_def Let_def)

lemma create_request_movie:
  assumes "body_mediaType body = ''movie''"
  shows "create_request tmdb user body st =
     (case getMovie tmdb (body_mediaId body) of
        Inl msg \<Rightarrow> (Inl (500, msg), st)
      | Inr d \<Rightarrow> (case lookup_or_create d body st of
                    (media, mr, st') \<Rightarrow> create_movie user media st'))"
  using assms by (simp add: create_request_def split: sum.splits prod.splits)

lemma create_request_tv:
  assumes "body_mediaType body = ''tv''"
  shows "create_request tmdb user body st =
     (case getTvShow tmdb (body_mediaId body) of
        Inl msg \<Rightarrow> (Inl (500, msg), st)
      | Inr d \<Rightarrow> (case lookup_or_create d body st of
                    (media, mr, st') \<Rightarrow> create_tv user body media mr st'))"
  using assms by (simp add: create_request_def split: sum.splits prod.splits)

lemma create_request_other:
  assumes "body_mediaType body \<noteq> ''movie''" "body_mediaType body \<noteq> ''tv''"
  shows "create_request tmdb user body st =
     (case getTvShow tmdb (body_mediaId body) of
        Inl msg \<Rightarrow> (Inl (500, msg), st)
      | Inr d \<Rightarrow> (case lookup_or_create d body st of
                    (media, mr, st') \<Rightarrow> (Inl (500, ''Invalid media type''), st')))"
  using assms by (simp add: create_request_def split: sum.splits prod.splits)

lemma create_tv_eq:
  assumes "body_seasons body = Some requestedSeasons"
  shows "create_tv user body media mr st =
     (if filter (\<lambda>rs. rs \<notin> set (case mr of None \<Rightarrow> [] | Some rs \<Rightarrow> combine_seasons rs))
           requestedSeasons = []
      then (Inl (500, ''No seasons available to request''), st)
      else
        (Inr (201,
              \<lparr>r_id = nextRequestId st, r_type = TV, r_media = m_id media,
               r_requestedBy = u_id user, r_modifiedBy = None,
               r_status = Some (initial_status user),
               r_seasons = map (\<lambda>sn. \<lparr>seasonNumber = sn, s_status = initial_status user\<rparr>)
                 (filter (\<lambda>rs. rs \<notin> set (case mr of None \<Rightarrow> [] | Some rs \<Rightarrow> combine_seasons rs))
                    requestedSeasons)\<rparr>,
              media),
         st\<lparr>requests := requests st @
               [\<lparr>r_id = nextRequestId st, r_type = TV, r_media = m_id media,
                 r_requestedBy = u_id user, r_modifiedBy = None,
                 r_status = Some (initial_status user),
                 r_seasons = map (\<lambda>sn. \<lparr>seasonNumber = sn, s_status = initial_status user\<rparr>)
                   (filter (\<lambda>rs. rs \<notin> set (case mr of None \<Rightarrow> [] | Some rs \<Rightarrow> combine_seasons rs))
                      requestedSeasons)\<rparr>],
            nextRequestId := Suc (nextRequestId st)\<rparr>))"
  using assms by (simp add: create_tv_def insert_request_def Let_def)

lemma set_existing_seasons:
  "set (combine_seasons (requests_of media st)) =
     (\<Union>r\<in>{r \<in> set (requests st). r_media r = m_id media}. seasonNumber ` set (r_seasons r))"
  by (auto simp: combine_seasons_concat requests_of_def)

lemma create_request_failure:
  assumes fail: "create_request tmdb user body st = (Inl e, st')"
  shows "st' = st \<or>
         (findOne_media (body_mediaId body) st = None \<and>
          (\<exists>m. st' = st\<lparr>medias := medias st @ [m], nextMediaId := Suc (nextMediaId st)\<rparr>))"
proof (cases "if body_mediaType body = ''movie'' then getMovie tmdb (body_mediaId body)
              else getTvShow tmdb (body_mediaId body)")
  case (Inl msg)
  then show ?thesis using fail by (simp add: create_request_def)
next
  case (Inr d)
  show ?thesis
  proof (cases "findOne_media (body_mediaId body) st")
    case (Some m)
    have "snd (create_request tmdb user body st) = st \<or>
          (\<exists>x. fst (create_request tmdb user body st) = Inr x)"
      using Inr
      by (simp add: create_request_def lookup_or_create_found[OF Some] create_movie_eq
          create_tv_def insert_request_def Let_def split: option.splits)
    then show ?thesis using fail by auto
  next
    case None
    let ?m = "\<lparr>m_id = nextMediaId st, tmdbId = d_id d, tvdbId = d_tvdb_id d,
               m_status = MediaStatus_PENDING, mediaType = body_mediaType body\<rparr>"
    have "snd (create_request tmdb user body st) =
            st\<lparr>medias := medias st @ [?m], nextMediaId := Suc (nextMediaId st)\<rparr> \<or>
          (\<exists>x. fst (create_request tmdb user body st) = Inr x)"
      using Inr
      by (simp add: create_request_def lookup_or_create_new[OF None] create_movie_eq
          create_tv_def insert_request_def Let_def split: option.splits)
    then show ?thesis using fail None by auto
  qed
qed

subsection \<open>The requests of a Media row\<close>

lemma requests_of_new_request:
  "requests_of m (st\<lparr>requests := requests st @ [r], nextRequestId := n\<rparr>) =
     requests_of m st @ (if r_media r = m_id m then [r] else [])"
  by (simp add: requests_of_def)

lemma requests_of_new_media:
  "requests_of m (st\<lparr>medias := ms, nextMediaId := n\<rparr>) = requests_of m st"
  by (simp add: requests_of_def)

lemma requests_of_same_id: "m_id m = m_id m' \<Longrightarrow> requests_of m st = requests_of m' st"
  by (simp add: requests_of_def)

lemma requests_of_fresh_id:
  assumes "wf_store st" "m_id m = nextMediaId st"
  shows "requests_of m st = []"
proof -
  have "\<forall>r\<in>set (requests st). r_media r < nextMediaId st"
    using assms(1) unfolding wf_store_def by auto
  then have "\<forall>r\<in>set (requests st). r_media r \<noteq> m_id m" using assms(2) by auto
  then show ?thesis by (simp add: requests_of_def)
qed

lemma distinct_remaining:
  assumes "distinct old" "distinct new"
  shows "distinct (old @ filter (\<lambda>x. x \<notin> set old) new)"
  using assms by auto

subsection \<open>Create on a known Media\<close>

lemma find_appended: "find P xs = None \<Longrightarrow> P x \<Longrightarrow> find P (xs @ [x]) = Some x"
  by (induction xs) (auto split: if_splits)

lemma find_None_filter: "find P xs = None \<Longrightarrow> filter P xs = []"
  by (induction xs) (auto split: if_splits)

lemma create_tv_answer:
  "medias (snd (create_tv user body media mr st)) = medias st \<and>
   answers_media (fst (create_tv user body media mr st)) media"
  by (cases "body_seasons body")
     (simp_all add: create_tv_def insert_request_def answers_media_def Let_def)

lemma create_movie_answer:
  "medias (snd (create_movie user media st)) = medias st \<and>
   answers_media (fst (create_movie user media st)) media"
  by (simp add: create_movie_eq answers_media_def)

lemma create_request_answer:
  assumes lookup: "(if body_mediaType body = ''movie'' then getMovie tmdb (body_mediaId body)
                    else getTvShow tmdb (body_mediaId body)) = Inr d"
    and loc: "lookup_or_create d body st = (media, mr, st1)"
  shows "medias (snd (create_request tmdb user body st)) = medias st1 \<and>
         answers_media (fst (create_request tmdb user body st)) media"
proof -
  consider (movie) "body_mediaType body = ''movie''"
    | (tv) "body_mediaType body = ''tv''"
    | (other) "body_mediaType body \<noteq> ''movie''" "body_mediaType body \<noteq> ''tv''"
    by blast
  then show ?thesis
  proof cases
    case movie
    have "create_request tmdb user body st = create_movie user media st1"
      using lookup loc movie by (simp add: create_request_movie[OF movie])
    then show ?thesis using create_movie_answer[of user media st1] by simp
  next
    case tv
    have "create_request tmdb user body st = create_tv user body media mr st1"
      using lookup loc tv by (simp add: create_request_tv[OF tv])
    then show ?thesis using create_tv_answer[of user body media mr st1] by simp
  next
    case other
    have "create_request tmdb user body st = (Inl (500, ''Invalid media type''), st1)"
      using lookup loc other by (simp add: create_request_other[OF other])
    then show ?thesis by (simp add: answers_media_def)
  qed
qed

lemma create_request_known_media:
  assumes known: "findOne_media (body_mediaId body) st = Some m"
  shows "medias (snd (create_request tmdb user body st)) = medias st \<and>
         answers_media (fst (create_request tmdb user body st)) m"
proof (cases "if body_mediaType body = ''movie'' then getMovie tmdb (body_mediaId body)
              else getTvShow tmdb (body_mediaId body)")
  case (Inl msg)
  then show ?thesis by (simp add: create_request_def answers_media_def)
next
  case (Inr d)
  show ?thesis
    using create_request_answer[OF Inr lookup_or_create_found[OF known, of d], of user]
    by simp
qed

lemma create_all_known_media:
  assumes "findOne_media k st = Some m" "\<forall>c\<in>set calls. body_mediaId (snd c) = k"
  shows "medias (snd (create_all tmdb calls st)) = medias st \<and>
         (\<forall>res\<in>set (fst (create_all tmdb calls st)). answers_media res m)"
  using assms
proof (induction calls arbitrary: st)
  case Nil
  then show ?case by simp
next
  case (Cons c calls)
  obtain user body where c: "c = (user, body)" by (cases c)
  let ?res = "fst (create_request tmdb user body st)"
  let ?st1 = "snd (create_request tmdb user body st)"
  have k: "body_mediaId body = k" using Cons.prems(2) c by simp
  have known: "findOne_media (body_mediaId body) st = Some m" using Cons.prems(1) k by simp
  have one: "medias ?st1 = medias st" "answers_media ?res m"
    using create_request_known_media[OF known, of tmdb user] by simp_all
  have "findOne_media k ?st1 = Some m"
    using Cons.prems(1) one(1) by (simp add: findOne_media_def)
  moreover have "\<forall>c\<in>set calls. body_mediaId (snd c) = k" using Cons.prems(2) by simp
  ultimately have rest: "medias (snd (create_all tmdb calls ?st1)) = medias ?st1"
    "\<forall>res\<in>set (fst (create_all tmdb calls ?st1)). answers_media res m"
    using Cons.IH[of ?st1] by simp_all
  have all: "create_all tmdb (c # calls) st =
               (?res # fst (create_all tmdb calls ?st1), snd (create_all tmdb calls ?st1))"
    using c by (simp add: split_beta)
  show ?case
    unfolding all using one rest by simp
qed

lemma create_request_unknown_media:
  assumes unknown: "findOne_media (body_mediaId body) st = None"
    and lookup: "(if body_mediaType body = ''movie'' then getMovie tmdb (body_mediaId body)
                  else getTvShow tmdb (body_mediaId body)) = Inr d"
  shows "\<exists>m. medias (snd (create_request tmdb user body st)) = medias st @ [m] \<and>
             tmdbId m = d_id d \<and>
             answers_media (fst (create_request tmdb user body st)) m"
proof -
  let ?m = "\<lparr>m_id = nextMediaId st, tmdbId = d_id d, tvdbId = d_tvdb_id d,
             m_status = MediaStatus_PENDING, mediaType = body_mediaType body\<rparr>"
  note ans = create_request_answer[OF lookup lookup_or_create_new[OF unknown, of d], of user]
  have "medias (snd (create_request tmdb user body st)) = medias st @ [?m]"
    using ans by simp
  moreover have "answers_media (fst (create_request tmdb user body st)) ?m"
    using ans by blast
  moreover have "tmdbId ?m = d_id d" by simp
  ultimately show ?thesis by blast
qed

subsection \<open>The rows that Create calls add\<close>

lemma created_requests_Cons:
  "created_requests (res # ress) = created_requests [res] @ created_requests ress"
  by (cases "(res # ress)" rule: created_requests.cases) simp_all

lemma created_requests_reference:
  "\<forall>res\<in>set ress. answers_media res m \<Longrightarrow>
   \<forall>req\<in>set (created_requests ress). r_media req = m_id m"
  by (induction ress rule: created_requests.induct) (simp_all add: answers_media_def)

lemma lookup_or_create_requests:
  "lookup_or_create d body st = (media, mr, st1) \<Longrightarrow> requests st1 = requests st"
  by (cases "findOne_media (body_mediaId body) st")
     (auto simp: lookup_or_create_def save_media_def Let_def)

lemma create_movie_rows:
  "requests (snd (create_movie user media st)) =
     requests st @ created_requests [fst (create_movie user media st)]"
  by (simp add: create_movie_eq)

lemma create_tv_rows:
  "requests (snd (create_tv user body media mr st)) =
     requests st @ created_requests [fst (create_tv user body media mr st)]"
  by (cases "body_seasons body")
     (simp_all add: create_tv_def insert_request_def Let_def)

lemma create_request_rows:
  "requests (snd (create_request tmdb user body st)) =
     requests st @ created_requests [fst (create_request tmdb user body st)]"
proof (cases "if body_mediaType body = ''movie'' then getMovie tmdb (body_mediaId body)
              else getTvShow tmdb (body_mediaId body)")
  case (Inl msg)
  then show ?thesis by (simp add: create_request_def)
next
  case (Inr d)
  obtain media mr st1 where loc: "lookup_or_create d body st = (media, mr, st1)"
    by (cases "lookup_or_create d body st") auto
  have same: "requests st1 = requests st" using loc by (rule lookup_or_create_requests)
  consider (movie) "body_mediaType body = ''movie''"
    | (tv) "body_mediaType body = ''tv''"
    | (other) "body_mediaType body \<noteq> ''movie''" "body_mediaType body \<noteq> ''tv''"
    by blast
  then show ?thesis
  proof cases
    case movie
    have "create_request tmdb user body st = create_movie user media st1"
      using Inr loc movie by (simp add: create_request_movie[OF movie])
    then show ?thesis using create_movie_rows[of user media st1] same by simp
  next
    case tv
    have "create_request tmdb user body st = create_tv user body media mr st1"
      using Inr loc tv by (simp add: create_request_tv[OF tv])
    then show ?thesis using create_tv_rows[of user body media mr st1] same by simp
  next
    case other
    have "create_request tmdb user body st = (Inl (500, ''Invalid media type''), st1)"
      using Inr loc other by (simp add: create_request_other[OF other])
    then show ?thesis using same by simp
  qed
qed

lemma create_all_rows:
  "requests (snd (create_all tmdb calls st)) =
     requests st @ created_requests (fst (create_all tmdb calls st))"
proof (induction calls arbitrary: st)
  case Nil
  then show ?case by simp
next
  case (Cons c calls)
  obtain user body where c: "c = (user, body)" by (cases c)
  let ?res = "fst (create_request tmdb user body st)"
  let ?st1 = "snd (create_request tmdb user body st)"
  have all: "create_all tmdb (c # calls) st =
               (?res # fst (create_all tmdb calls ?st1), snd (create_all tmdb calls ?st1))"
    using c by (simp add: split_beta)
  have "requests (snd (create_all tmdb calls ?st1)) =
          (requests st @ created_requests [?res]) @
          created_requests (fst (create_all tmdb calls ?st1))"
    using Cons.IH[of ?st1] create_request_rows[of tmdb user body st] by simp
  then show ?case
    unfolding all
    using created_requests_Cons[of ?res "fst (create_all tmdb calls ?st1)"] by simp
qed

subsection \<open>The keys stay sound\<close>

lemma wf_empty_store: "wf_store empty_store"
  by (simp add: wf_store_def empty_store_def)

lemma wf_save_media:
  assumes "wf_store st"
  shows "wf_store (snd (save_media m st))"
    and "m_id (fst (save_media m st)) \<in> set (map m_id (medias (snd (save_media m st))))"
  using assms by (auto simp: wf_store_def save_media_def Let_def)

lemma wf_insert_request:
  assumes "wf_store st" "r_media r \<in> set (map m_id (medias st))"
  shows "wf_store (snd (insert_request r st))"
  using assms by (auto simp: wf_store_def insert_request_def Let_def less_Suc_eq)

lemma wf_lookup_or_create:
  assumes "wf_store st" "lookup_or_create d body st = (media, mr, st1)"
  shows "wf_store st1 \<and> m_id media \<in> set (map m_id (medias st1))"
proof (cases "findOne_media (body_mediaId body) st")
  case None
  let ?new = "\<lparr>m_id = 0, tmdbId = d_id d, tvdbId = d_tvdb_id d,
               m_status = MediaStatus_PENDING, mediaType = body_mediaType body\<rparr>"
  have "media = fst (save_media ?new st)" "st1 = snd (save_media ?new st)"
    using assms(2) None by (simp_all add: lookup_or_create_def split_beta)
  then show ?thesis using wf_save_media[OF assms(1), of ?new] by simp
next
  case (Some m)
  have "m \<in> set (medias st)"
    using Some find_key_Some[of tmdbId "body_mediaId body" "medias st" m]
    by (simp add: findOne_media_def)
  then show ?thesis using assms Some by (simp add: lookup_or_create_def)
qed

lemma wf_create_movie:
  assumes "wf_store st" "m_id media \<in> set (map m_id (medias st))"
  shows "wf_store (snd (create_movie user media st))"
  using wf_insert_request[OF assms(1), of
      "\<lparr>r_id = 0, r_type = MOVIE, r_media = m_id media, r_requestedBy = u_id user,
        r_modifiedBy = None, r_status = Some (initial_status user), r_seasons = []\<rparr>"] assms(2)
  by (simp add: create_movie_def split_beta)

lemma wf_create_tv:
  assumes "wf_store st" "m_id media \<in> set (map m_id (medias st))"
  shows "wf_store (snd (create_tv user body media mr st))"
proof (cases "body_seasons body")
  case None
  then show ?thesis using assms(1) by (simp add: create_tv_def)
next
  case (Some ss)
  let ?final = "filter (\<lambda>rs. rs \<notin> set (case mr of None \<Rightarrow> [] | Some rs \<Rightarrow> combine_seasons rs)) ss"
  let ?r = "\<lparr>r_id = 0, r_type = TV, r_media = m_id media, r_requestedBy = u_id user,
             r_modifiedBy = None, r_status = Some (initial_status user),
             r_seasons = map (\<lambda>sn. \<lparr>seasonNumber = sn, s_status = initial_status user\<rparr>) ?final\<rparr>"
  have "snd (create_tv user body media mr st) = st \<or>
        snd (create_tv user body media mr st) = snd (insert_request ?r st)"
    using Some by (simp add: create_tv_def Let_def split_beta)
  then show ?thesis
    using assms(1) wf_insert_request[OF assms(1), of ?r] assms(2) by auto
qed

lemma wf_create_request:
  assumes wf: "wf_store st"
  shows "wf_store (snd (create_request tmdb user body st))"
proof (cases "if body_mediaType body = ''movie'' then getMovie tmdb (body_mediaId body)
              else getTvShow tmdb (body_mediaId body)")
  case (Inl msg)
  then show ?thesis using wf by (simp add: create_request_def)
next
  case (Inr d)
  obtain media mr st1 where loc: "lookup_or_create d body st = (media, mr, st1)"
    by (cases "lookup_or_create d body st") auto
  have wf1: "wf_store st1" "m_id media \<in> set (map m_id (medias st1))"
    using wf_lookup_or_create[OF wf loc] by simp_all
  have "snd (create_request tmdb user body st) = snd (create_movie user media st1) \<or>
        snd (create_request tmdb user body st) = snd (create_tv user body media mr st1) \<or>
        snd (create_request tmdb user body st) = st1"
    using Inr loc by (simp add: create_request_def)
  then show ?thesis
    using wf1 wf_create_movie[OF wf1, of user] wf_create_tv[OF wf1, of user body mr] by auto
qed

lemma wf_remove_request:
  assumes "wf_store st"
  shows "wf_store (snd (remove_request sv user requestId st))"
  using assms
  by (auto simp: remove_request_def delete_request_def wf_store_def distinct_map_filter
      split: option.splits)

lemma wf_change_status:
  assumes "wf_store st"
  shows "wf_store (snd (change_status requestId status st))"
proof (cases "findOneOrFail requestId st")
  case None
  then show ?thesis using assms by (simp add: change_status_def)
next
  case (Some request)
  let ?r = "request\<lparr>r_status := newStatus status\<rparr>"
  define h where "h = (\<lambda>x. if r_id x = r_id ?r
                then (case r_status ?r of None \<Rightarrow> ?r\<lparr>r_status := r_status x\<rparr> | Some s \<Rightarrow> ?r)
                else x)"
  have rid: "r_id request = requestId" "request \<in> set (requests st)"
    using Some find_key_Some[of r_id requestId "requests st" request]
    by (simp_all add: findOneOrFail_def)
  have old: "\<forall>x\<in>set (requests st). r_id x < nextRequestId st \<and>
               r_media x \<in> set (map m_id (medias st))"
    using assms by (simp add: wf_store_def)
  have h: "r_id (h x) = r_id x \<and> r_media (h x) \<in> set (map m_id (medias st))"
    if "x \<in> set (requests st)" for x
    using old rid(2) that unfolding h_def by (auto split: option.splits)
  have ids: "map r_id (map h (requests st)) = map r_id (requests st)"
    using h by simp
  have new: "snd (change_status requestId status st) = st\<lparr>requests := map h (requests st)\<rparr>"
    using Some unfolding h_def by (simp add: change_status_def update_request_def Let_def)
  have keys: "distinct (map r_id (map h (requests st)))"
    using assms unfolding ids by (simp add: wf_store_def)
  have rows: "r_id y < nextRequestId st \<and> r_media y \<in> set (map m_id (medias st))"
    if y: "y \<in> set (map h (requests st))" for y
  proof -
    obtain x where x: "x \<in> set (requests st)" "y = h x"
      using y by auto
    then show ?thesis using old h[OF x(1)] by metis
  qed
  have "distinct (map m_id (medias st))" "\<forall>m\<in>set (medias st). m_id m < nextMediaId st"
    using assms by (simp_all add: wf_store_def)
  then show ?thesis
    unfolding new wf_store_def using keys rows by (simp del: map_map set_map)
qed

subsection \<open>Every stored request keeps a status\<close>

lemma statuses_defined_empty_store: "statuses_defined empty_store"
  by (simp add: statuses_defined_def empty_store_def)

lemma statuses_defined_change_status:
  assumes "statuses_defined st"
  shows "statuses_defined (snd (change_status requestId status st))"
proof (cases "findOneOrFail requestId st")
  case None
  then show ?thesis using assms by (simp add: change_status_def)
next
  case (Some request)
  have "request \<in> set (requests st)"
    using Some find_key_Some[of r_id requestId "requests st" request]
    by (simp add: findOneOrFail_def)
  then show ?thesis
    using assms Some
    by (auto simp: statuses_defined_def change_status_def update_request_def Let_def
        split: option.splits if_splits)
qed

lemma statuses_defined_remove_request:
  assumes "statuses_defined st"
  shows "statuses_defined (snd (remove_request sv user requestId st))"
  using assms
  by (auto simp: statuses_defined_def remove_request_def delete_request_def split: option.splits)

lemma statuses_defined_insert_request:
  assumes "statuses_defined st" "r_status r \<noteq> None"
  shows "statuses_defined (snd (insert_request r st))"
  using assms by (auto simp: statuses_defined_def insert_request_def Let_def)

lemma statuses_defined_create_request:
  assumes sd: "statuses_defined st"
  shows "statuses_defined (snd (create_request tmdb user body st))"
proof (cases "if body_mediaType body = ''movie'' then getMovie tmdb (body_mediaId body)
              else getTvShow tmdb (body_mediaId body)")
  case (Inl msg)
  then show ?thesis using sd by (simp add: create_request_def)
next
  case (Inr d)
  obtain media mr st1 where loc: "lookup_or_create d body st = (media, mr, st1)"
    by (cases "lookup_or_create d body st") auto
  have "requests st1 = requests st"
    using loc
    by (cases "findOne_media (body_mediaId body) st")
       (auto simp: lookup_or_create_def save_media_def Let_def)
  then have sd1: "statuses_defined st1" using sd by (simp add: statuses_defined_def)
  have movie: "statuses_defined (snd (create_movie user media st1))"
    using sd1 by (simp add: create_movie_eq statuses_defined_def)
  have tv: "statuses_defined (snd (create_tv user body media mr st1))"
    using sd1
    by (cases "body_seasons body")
       (simp_all add: create_tv_def insert_request_def statuses_defined_def Let_def)
  have "snd (create_request tmdb user body st) = snd (create_movie user media st1) \<or>
        snd (create_request tmdb user body st) = snd (create_tv user body media mr st1) \<or>
        snd (create_request tmdb user body st) = st1"
    using Inr loc by (simp add: create_request_def)
  then show ?thesis using sd1 movie tv by auto
qed

section \<open>Listing\<close>

text \<open>
  Claim C6. A List call always answers 200 and leaves the store alone. The answer holds at
  most 20 requests of the store, ordered by descending id. For a caller without the
  manage-requests permission every returned request was requested by the caller, and an own
  request that is left out is not newer than any returned one (and then 20 are returned).
  For a caller with the permission the answer is taken from the requests of all users: a
  request that is left out is not newer than any returned one (and then 20 are returned).
\<close>

theorem list_requests_scope:
  "\<exists>rs. list_requests user st = (Inr (200, rs), st) \<and>
     length rs \<le> 20 \<and>
     sorted_wrt (\<lambda>a b. r_id b \<le> r_id a) rs \<and>
     set rs \<subseteq> set (requests st) \<and>
     (\<not> hasPermission user MANAGE_REQUESTS \<longrightarrow>
        (\<forall>r\<in>set rs. r_requestedBy r = u_id user) \<and>
        (\<forall>x\<in>set (requests st). r_requestedBy x = u_id user \<and> x \<notin> set rs \<longrightarrow>
           length rs = 20 \<and> (\<forall>y\<in>set rs. r_id x \<le> r_id y))) \<and>
     (hasPermission user MANAGE_REQUESTS \<longrightarrow>
        (\<forall>x\<in>set (requests st). x \<notin> set rs \<longrightarrow>
           length rs = 20 \<and> (\<forall>y\<in>set rs. r_id x \<le> r_id y)))"
proof (cases "hasPermission user MANAGE_REQUESTS")
  case True
  let ?rs = "take 20 (order_id_desc (requests st))"
  have "list_requests user st = (Inr (200, ?rs), st)"
    using True by (simp add: list_requests_def)
  moreover have "length ?rs \<le> 20" by simp
  moreover have "sorted_wrt (\<lambda>a b. r_id b \<le> r_id a) ?rs"
    using sorted_order_id_desc by (rule sorted_wrt_take)
  moreover have "set ?rs \<subseteq> set (requests st)"
    using set_take_subset[of 20 "order_id_desc (requests st)"] by (simp add: set_order_id_desc)
  moreover have "\<forall>x\<in>set (requests st). x \<notin> set ?rs \<longrightarrow>
           length ?rs = 20 \<and> (\<forall>y\<in>set ?rs. r_id x \<le> r_id y)"
    using left_out_is_older by blast
  ultimately show ?thesis using True by blast
next
  case False
  let ?own = "filter (\<lambda>r. r_requestedBy r = u_id user) (requests st)"
  let ?rs = "take 20 (order_id_desc ?own)"
  have "list_requests user st = (Inr (200, ?rs), st)"
    using False by (simp add: list_requests_def)
  moreover have "length ?rs \<le> 20" by simp
  moreover have "sorted_wrt (\<lambda>a b. r_id b \<le> r_id a) ?rs"
    using sorted_order_id_desc by (rule sorted_wrt_take)
  moreover have sub: "set ?rs \<subseteq> set ?own"
    using set_take_subset[of 20 "order_id_desc ?own"] by (simp only: set_order_id_desc)
  moreover have "set ?rs \<subseteq> set (requests st)" using sub by auto
  moreover have "\<forall>r\<in>set ?rs. r_requestedBy r = u_id user" using sub by auto
  moreover have "\<forall>x\<in>set (requests st). r_requestedBy x = u_id user \<and> x \<notin> set ?rs \<longrightarrow>
           length ?rs = 20 \<and> (\<forall>y\<in>set ?rs. r_id x \<le> r_id y)"
  proof (intro ballI impI)
    fix x assume "x \<in> set (requests st)" "r_requestedBy x = u_id user \<and> x \<notin> set ?rs"
    then have "x \<in> set ?own" "x \<notin> set ?rs" by auto
    then show "length ?rs = 20 \<and> (\<forall>y\<in>set ?rs. r_id x \<le> r_id y)"
      by (rule left_out_is_older)
  qed
  ultimately show ?thesis using False by blast
qed

text \<open>
  In a store with a request of the plain caller and a newer one of the manager, the plain
  caller sees the own request only and the manager sees both, newest first.
\<close>

theorem list_requests_scope_witness:
  "\<not> hasPermission requester MANAGE_REQUESTS \<and>
   list_requests requester store_2 = (Inr (200, [request_1]), store_2) \<and>
   hasPermission manager MANAGE_REQUESTS \<and>
   list_requests manager store_2 = (Inr (200, [request_2, request_1]), store_2)"
  using list_requests_scope [of requester store_2] list_requests_scope [of manager store_2]
  by (simp add: list_requests_def order_id_desc_def requester_def manager_def store_2_def
      request_1_def request_2_def)

section \<open>Creating\<close>

text \<open>
  Claim C7. Every movie Create that succeeds answers 201 and appends exactly one request to
  the request table: a movie request of the caller that references the answered Media,
  approved for a caller with the auto-approve permission and pending otherwise. The Media is
  a row of the store: the one found for the body's mediaId, or the one just created from the
  metadata, whose tmdbId is the id the metadata client returned.
\<close>

theorem create_movie_request:
  assumes movie: "body_mediaType body = ''movie''"
    and ok: "create_request tmdb user body st = (Inr (code, request, media), st')"
  shows "code = 201 \<and>
         requests st' = requests st @ [request] \<and>
         r_type request = MOVIE \<and>
         r_media request = m_id media \<and>
         media \<in> set (medias st') \<and>
         r_requestedBy request = u_id user \<and>
         r_status request = Some (if hasPermission user AUTO_APPROVE then APPROVED else PENDING) \<and>
         (findOne_media (body_mediaId body) st = Some media \<and> medias st' = medias st \<and>
            tmdbId media = body_mediaId body
          \<or> findOne_media (body_mediaId body) st = None \<and> medias st' = medias st @ [media] \<and>
            (\<exists>d. getMovie tmdb (body_mediaId body) = Inr d \<and> tmdbId media = d_id d))"
proof -
  obtain d where d: "getMovie tmdb (body_mediaId body) = Inr d"
    using ok create_request_movie[OF movie, of tmdb user st]
    by (cases "getMovie tmdb (body_mediaId body)") auto
  show ?thesis
  proof (cases "findOne_media (body_mediaId body) st")
    case None
    show ?thesis
      using ok d None
      unfolding create_request_movie[OF movie] lookup_or_create_new[OF None] create_movie_eq
      by (auto simp: initial_status_def)
  next
    case (Some m)
    have m: "tmdbId m = body_mediaId body" "m \<in> set (medias st)"
      using Some find_key_Some[of tmdbId "body_mediaId body" "medias st" m]
      by (simp_all add: findOne_media_def)
    show ?thesis
      using ok d Some m
      unfolding create_request_movie[OF movie] lookup_or_create_found[OF Some] create_movie_eq
      by (auto simp: initial_status_def)
  qed
qed

text \<open>
  A caller without the auto-approve permission posts \<open>{mediaType: "movie", mediaId: 550}\<close>
  to the empty store: 201, the request is pending and the Media has tmdbId 550.
\<close>

theorem create_movie_request_witness:
  "body_mediaType movie_550 = ''movie'' \<and>
   \<not> hasPermission requester AUTO_APPROVE \<and>
   create_request tmdb_echo requester movie_550 empty_store =
     (Inr (201, request_1, media_550), store_1) \<and>
   r_status request_1 = Some PENDING \<and> tmdbId media_550 = 550 \<and>
   requests store_1 = requests empty_store @ [request_1]"
proof -
  have movie: "body_mediaType movie_550 = ''movie''" by (simp add: movie_550_def)
  have run: "create_request tmdb_echo requester movie_550 empty_store =
     (Inr (201, request_1, media_550), store_1)"
    by (simp add: create_request_def lookup_or_create_def findOne_media_def save_media_def
        create_movie_def insert_request_def initial_status_def Let_def tmdb_echo_def
        requester_def movie_550_def empty_store_def request_1_def media_550_def store_1_def)
  show ?thesis
    using create_movie_request [OF movie run] movie run
    by (simp add: requester_def request_1_def media_550_def store_1_def empty_store_def)
qed

text \<open>
  Claim C3. Take a tv Create call with a season list whose metadata lookup succeeds and
  whose Media is already in the store. The seasons that remain are the input list without
  the season numbers of all requests of that Media. If none remains the call fails with
  500 \<open>No seasons available to request\<close> and the store is unchanged. Otherwise it answers
  201 and appends one tv request of that Media whose season numbers are exactly the
  remaining ones, in input order, each season with the status of the request.
\<close>

theorem create_tv_request_seasons:
  assumes tv: "body_mediaType body = ''tv''"
    and lookup: "getTvShow tmdb (body_mediaId body) = Inr tmdbMedia"
    and found: "findOne_media (body_mediaId body) st = Some media"
    and seasons: "body_seasons body = Some requestedSeasons"
  shows "if filter (\<lambda>sn. sn \<notin> (\<Union>r\<in>{r \<in> set (requests st). r_media r = m_id media}.
                                   seasonNumber ` set (r_seasons r))) requestedSeasons = []
         then create_request tmdb user body st =
                (Inl (500, ''No seasons available to request''), st)
         else (\<exists>request.
                create_request tmdb user body st =
                  (Inr (201, request, media),
                   st\<lparr>requests := requests st @ [request],
                      nextRequestId := Suc (nextRequestId st)\<rparr>) \<and>
                r_type request = TV \<and> r_media request = m_id media \<and>
                r_status request = Some (initial_status user) \<and>
                map seasonNumber (r_seasons request) =
                  filter (\<lambda>sn. sn \<notin> (\<Union>r\<in>{r \<in> set (requests st). r_media r = m_id media}.
                                          seasonNumber ` set (r_seasons r))) requestedSeasons \<and>
                map s_status (r_seasons request) =
                  replicate (length (r_seasons request)) (initial_status user))"
proof -
  have run: "create_request tmdb user body st =
               create_tv user body media (Some (requests_of media st)) st"
    by (simp add: create_request_tv[OF tv] lookup lookup_or_create_found[OF found])
  show ?thesis
    unfolding run create_tv_eq[OF seasons]
    by (simp add: set_existing_seasons comp_def map_replicate_const)
qed

text \<open>
  Seasons 1 and 2 are requested first. A second request for seasons 2 and 3 then holds
  season 3 only, and a third one for seasons 1 and 3 fails and creates nothing.
\<close>

theorem create_tv_request_seasons_witness:
  "create_request tmdb_echo requester (tv_seasons [1, 2]) empty_store =
     (Inr (201, tv_request 1 [1, 2], media_1399), store_tv [tv_request 1 [1, 2]]) \<and>
   findOne_media 1399 (store_tv [tv_request 1 [1, 2]]) = Some media_1399 \<and>
   create_request tmdb_echo requester (tv_seasons [2, 3]) (store_tv [tv_request 1 [1, 2]]) =
     (Inr (201, tv_request 2 [3], media_1399),
      store_tv [tv_request 1 [1, 2], tv_request 2 [3]]) \<and>
   findOne_media 1399 (store_tv [tv_request 1 [1, 2], tv_request 2 [3]]) = Some media_1399 \<and>
   create_request tmdb_echo requester (tv_seasons [1, 3])
       (store_tv [tv_request 1 [1, 2], tv_request 2 [3]]) =
     (Inl (500, ''No seasons available to request''),
      store_tv [tv_request 1 [1, 2], tv_request 2 [3]])"
proof -
  have defs: "create_request tmdb_echo requester (tv_seasons [1, 2]) empty_store =
     (Inr (201, tv_request 1 [1, 2], media_1399), store_tv [tv_request 1 [1, 2]])"
    "create_request tmdb_echo requester (tv_seasons [2, 3]) (store_tv [tv_request 1 [1, 2]]) =
     (Inr (201, tv_request 2 [3], media_1399),
      store_tv [tv_request 1 [1, 2], tv_request 2 [3]])"
    "create_request tmdb_echo requester (tv_seasons [1, 3])
       (store_tv [tv_request 1 [1, 2], tv_request 2 [3]]) =
     (Inl (500, ''No seasons available to request''),
      store_tv [tv_request 1 [1, 2], tv_request 2 [3]])"
    by (simp_all add: create_request_def lookup_or_create_def findOne_media_def save_media_def
        create_tv_def insert_request_def initial_status_def Let_def tmdb_echo_def
        requests_of_def combine_seasons_def
        requester_def tv_seasons_def empty_store_def tv_request_def media_1399_def store_tv_def)
  have tv: "body_mediaType (tv_seasons [2, 3]) = ''tv''"
    and ss: "body_seasons (tv_seasons [2, 3]) = Some [2, 3]"
    and lookup: "getTvShow tmdb_echo (body_mediaId (tv_seasons [2, 3])) =
                   Inr \<lparr>d_id = 1399, d_tvdb_id = None\<rparr>"
    by (simp_all add: tv_seasons_def tmdb_echo_def)
  have f1: "findOne_media (body_mediaId (tv_seasons [2, 3])) (store_tv [tv_request 1 [1, 2]]) =
              Some media_1399"
    by (simp add: findOne_media_def store_tv_def media_1399_def tv_seasons_def)
  have f: "findOne_media 1399 (store_tv [tv_request 1 [1, 2]]) = Some media_1399"
    "findOne_media 1399 (store_tv [tv_request 1 [1, 2], tv_request 2 [3]]) = Some media_1399"
    by (simp_all add: findOne_media_def store_tv_def media_1399_def)
  show ?thesis
    using create_tv_request_seasons [OF tv lookup f1 ss, of requester] defs f
    by simp
qed

text \<open>
  Claim C4, as the handler has it. In a store with sound keys in which no season number is
  requested twice for one Media, every successful tv Create whose input season list has no
  duplicates leaves a store in which again no season number is requested twice for one
  Media.
\<close>

theorem create_tv_keeps_seasons_distinct:
  assumes wf: "wf_store st"
    and inv: "seasons_distinct st"
    and tv: "body_mediaType body = ''tv''"
    and seasons: "body_seasons body = Some requestedSeasons"
    and nodup: "distinct requestedSeasons"
    and ok: "create_request tmdb user body st = (Inr (code, request, media), st')"
  shows "seasons_distinct st'"
proof -
  obtain d where d: "getTvShow tmdb (body_mediaId body) = Inr d"
    using ok create_request_tv[OF tv, of tmdb user st]
    by (cases "getTvShow tmdb (body_mediaId body)") auto
  show ?thesis
  proof (cases "findOne_media (body_mediaId body) st")
    case (Some m)
    let ?old = "combine_seasons (requests_of m st)"
    let ?final = "filter (\<lambda>rs. rs \<notin> set ?old) requestedSeasons"
    have run: "create_request tmdb user body st = create_tv user body m (Some (requests_of m st)) st"
      by (simp add: create_request_tv[OF tv] d lookup_or_create_found[OF Some])
    have shape: "media = m \<and> r_media request = m_id m \<and>
                 map seasonNumber (r_seasons request) = ?final \<and>
                 st' = st\<lparr>requests := requests st @ [request],
                          nextRequestId := Suc (nextRequestId st)\<rparr>"
      using ok unfolding run create_tv_eq[OF seasons]
      by (auto simp: comp_def split: if_splits)
    have m_in: "m \<in> set (medias st)"
      using Some find_key_Some[of tmdbId "body_mediaId body" "medias st" m]
      by (simp add: findOne_media_def)
    have old: "distinct ?old"
      using inv m_in by (simp add: seasons_distinct_def combine_seasons_concat)
    have new: "distinct (?old @ ?final)"
      using old nodup by (rule distinct_remaining)
    have "distinct (concat (map (\<lambda>r. map seasonNumber (r_seasons r)) (requests_of m2 st')))"
      if m2: "m2 \<in> set (medias st')" for m2
    proof (cases "m_id m2 = m_id m")
      case True
      have "requests_of m2 st' = requests_of m st @ [request]"
        using shape True requests_of_same_id[OF True, of st]
        by (simp add: requests_of_new_request)
      then show ?thesis using new shape by (simp add: combine_seasons_concat)
    next
      case False
      have "requests_of m2 st' = requests_of m2 st"
        using shape False by (simp add: requests_of_new_request)
      moreover have "m2 \<in> set (medias st)" using m2 shape by simp
      ultimately show ?thesis using inv by (simp add: seasons_distinct_def)
    qed
    then show ?thesis by (simp add: seasons_distinct_def)
  next
    case None
    let ?m = "\<lparr>m_id = nextMediaId st, tmdbId = d_id d, tvdbId = d_tvdb_id d,
               m_status = MediaStatus_PENDING, mediaType = body_mediaType body\<rparr>"
    let ?st1 = "st\<lparr>medias := medias st @ [?m], nextMediaId := Suc (nextMediaId st)\<rparr>"
    have run: "create_request tmdb user body st = create_tv user body ?m None ?st1"
      by (simp add: create_request_tv[OF tv] d lookup_or_create_new[OF None])
    have shape: "media = ?m \<and> r_media request = nextMediaId st \<and>
                 map seasonNumber (r_seasons request) = requestedSeasons \<and>
                 st' = ?st1\<lparr>requests := requests ?st1 @ [request],
                            nextRequestId := Suc (nextRequestId ?st1)\<rparr>"
      using ok unfolding run create_tv_eq[OF seasons]
      by (auto simp: comp_def split: if_splits)
    have "distinct (concat (map (\<lambda>r. map seasonNumber (r_seasons r)) (requests_of m2 st')))"
      if m2: "m2 \<in> set (medias st')" for m2
    proof (cases "m_id m2 = nextMediaId st")
      case True
      have "requests_of m2 st = []" using wf True by (rule requests_of_fresh_id)
      then have "requests_of m2 st' = [request]"
        using shape True by (simp add: requests_of_def)
      then show ?thesis using shape nodup by simp
    next
      case False
      have "m2 \<noteq> ?m" using False by auto
      then have "m2 \<in> set (medias st)" using m2 shape by auto
      moreover have "requests_of m2 st' = requests_of m2 st"
        using shape False by (simp add: requests_of_def)
      ultimately show ?thesis using inv by (simp add: seasons_distinct_def)
    qed
    then show ?thesis by (simp add: seasons_distinct_def)
  qed
qed

text \<open>
  After seasons 1 and 2 are requested, a request for seasons 2 and 3 succeeds and the three
  requested seasons of the Media are pairwise different.
\<close>

theorem create_tv_keeps_seasons_distinct_witness:
  "wf_store (store_tv [tv_request 1 [1, 2]]) \<and>
   seasons_distinct (store_tv [tv_request 1 [1, 2]]) \<and>
   body_mediaType (tv_seasons [2, 3]) = ''tv'' \<and>
   body_seasons (tv_seasons [2, 3]) = Some [2, 3] \<and>
   distinct [2, 3 :: int] \<and>
   create_request tmdb_echo requester (tv_seasons [2, 3]) (store_tv [tv_request 1 [1, 2]]) =
     (Inr (201, tv_request 2 [3], media_1399),
      store_tv [tv_request 1 [1, 2], tv_request 2 [3]]) \<and>
   seasons_distinct (store_tv [tv_request 1 [1, 2], tv_request 2 [3]])"
proof -
  have wf: "wf_store (store_tv [tv_request 1 [1, 2]])"
    by (simp add: wf_store_def store_tv_def tv_request_def media_1399_def)
  have inv: "seasons_distinct (store_tv [tv_request 1 [1, 2]])"
    by (simp add: seasons_distinct_def requests_of_def store_tv_def tv_request_def media_1399_def)
  have tv: "body_mediaType (tv_seasons [2, 3]) = ''tv''"
    and ss: "body_seasons (tv_seasons [2, 3]) = Some [2, 3]"
    by (simp_all add: tv_seasons_def)
  have nodup: "distinct [2, 3 :: int]" by simp
  have run: "create_request tmdb_echo requester (tv_seasons [2, 3])
               (store_tv [tv_request 1 [1, 2]]) =
     (Inr (201, tv_request 2 [3], media_1399),
      store_tv [tv_request 1 [1, 2], tv_request 2 [3]])"
    by (simp add: create_request_def lookup_or_create_def findOne_media_def save_media_def
        create_tv_def insert_request_def initial_status_def Let_def tmdb_echo_def
        requests_of_def combine_seasons_def
        requester_def tv_seasons_def tv_request_def media_1399_def store_tv_def)
  show ?thesis
    using create_tv_keeps_seasons_distinct [OF wf inv tv ss nodup run] wf inv tv ss nodup run
    by simp
qed

text \<open>
  Claim C4 as stated fails for an input list with duplicates: a tv Create for the seasons
  1 and 1 on the empty store succeeds, and the created request holds season 1 twice.
\<close>

theorem create_tv_duplicate_input:
  "seasons_distinct empty_store \<and>
   create_request tmdb_echo requester (tv_seasons [1, 1]) empty_store =
     (Inr (201, tv_request 1 [1, 1], media_1399), store_tv [tv_request 1 [1, 1]]) \<and>
   map seasonNumber (r_seasons (tv_request 1 [1, 1])) = [1, 1] \<and>
   \<not> seasons_distinct (store_tv [tv_request 1 [1, 1]])"
  by (simp add: create_request_def lookup_or_create_def findOne_media_def save_media_def
      create_tv_def insert_request_def initial_status_def Let_def tmdb_echo_def
      requests_of_def seasons_distinct_def
      requester_def tv_seasons_def empty_store_def tv_request_def media_1399_def store_tv_def)

text \<open>
  Claim C5. Take Create calls that all reference the catalog id \<open>k\<close>, run one after the
  other on a store without a Media for \<open>k\<close>, where the metadata lookup of the first call
  succeeds and returns the id \<open>k\<close>. The first call creates one Media row with tmdbId \<open>k\<close>.
  No later call creates a Media row: after all calls the Media table is the old one with
  that row appended, and it is the only row with tmdbId \<open>k\<close>. Every call that succeeds
  answers that Media with a request that references it, and the request table after all
  calls is the old one with exactly the requests of the successful calls appended, in call
  order, each of them referencing that one Media row.
\<close>

theorem media_created_once:
  assumes first: "body_mediaId body = k"
    and later: "\<forall>c\<in>set calls. body_mediaId (snd c) = k"
    and unknown: "findOne_media k st = None"
    and lookup: "(if body_mediaType body = ''movie'' then getMovie tmdb k
                  else getTvShow tmdb k) = Inr d"
    and echo: "d_id d = k"
  shows "\<exists>m. medias (snd (create_request tmdb user body st)) = medias st @ [m] \<and>
             tmdbId m = k \<and>
             medias (snd (create_all tmdb ((user, body) # calls) st)) = medias st @ [m] \<and>
             filter (\<lambda>x. tmdbId x = k)
               (medias (snd (create_all tmdb ((user, body) # calls) st))) = [m] \<and>
             (\<forall>res\<in>set (fst (create_all tmdb ((user, body) # calls) st)).
                answers_media res m) \<and>
             requests (snd (create_all tmdb ((user, body) # calls) st)) =
               requests st @ created_requests (fst (create_all tmdb ((user, body) # calls) st)) \<and>
             (\<forall>req\<in>set (created_requests (fst (create_all tmdb ((user, body) # calls) st))).
                req \<in> set (requests (snd (create_all tmdb ((user, body) # calls) st))) \<and>
                r_media req = m_id m)"
proof -
  let ?res = "fst (create_request tmdb user body st)"
  let ?st1 = "snd (create_request tmdb user body st)"
  obtain m where m: "medias ?st1 = medias st @ [m]" "tmdbId m = k" "answers_media ?res m"
    using create_request_unknown_media[of body st tmdb d user] unknown lookup first echo
    by auto
  have known: "findOne_media k ?st1 = Some m"
    using unknown m(1,2) find_appended[of "\<lambda>x. tmdbId x = k" "medias st" m]
    by (simp add: findOne_media_def)
  have rest: "medias (snd (create_all tmdb calls ?st1)) = medias ?st1"
    "\<forall>res\<in>set (fst (create_all tmdb calls ?st1)). answers_media res m"
    using create_all_known_media[OF known later, of tmdb] by simp_all
  have only: "filter (\<lambda>x. tmdbId x = k) (medias st @ [m]) = [m]"
    using unknown m(2) find_None_filter[of "\<lambda>x. tmdbId x = k" "medias st"]
    by (simp add: findOne_media_def)
  have all: "create_all tmdb ((user, body) # calls) st =
               (?res # fst (create_all tmdb calls ?st1), snd (create_all tmdb calls ?st1))"
    by (simp add: split_beta)
  have answers: "\<forall>res\<in>set (fst (create_all tmdb ((user, body) # calls) st)).
                   answers_media res m"
    unfolding all using m(3) rest(2) by simp
  have rows: "requests (snd (create_all tmdb ((user, body) # calls) st)) =
      requests st @ created_requests (fst (create_all tmdb ((user, body) # calls) st))"
    by (rule create_all_rows)
  have refs: "\<forall>req\<in>set (created_requests (fst (create_all tmdb ((user, body) # calls) st))).
      req \<in> set (requests (snd (create_all tmdb ((user, body) # calls) st))) \<and>
      r_media req = m_id m"
    using created_requests_reference[OF answers] unfolding rows by simp
  have tables: "medias (snd (create_all tmdb ((user, body) # calls) st)) = medias st @ [m]"
    "filter (\<lambda>x. tmdbId x = k)
       (medias (snd (create_all tmdb ((user, body) # calls) st))) = [m]"
    unfolding all using m(1) rest(1) only by simp_all
  show ?thesis
    using m(1,2) tables answers rows refs by blast
qed
text \<open>
  Two movie requests for the catalog id 550 on the empty store: both succeed, the store
  holds two requests and one Media row, and both requests reference that row.
\<close>

theorem media_created_once_witness:
  "body_mediaId movie_550 = 550 \<and>
   findOne_media 550 empty_store = None \<and>
   getMovie tmdb_echo 550 = Inr \<lparr>d_id = 550, d_tvdb_id = None\<rparr> \<and>
   create_all tmdb_echo [(requester, movie_550), (manager, movie_550)] empty_store =
     ([Inr (201, request_1, media_550), Inr (201, request_2, media_550)], store_2) \<and>
   medias store_2 = [media_550] \<and>
   requests store_2 = requests empty_store @ [request_1, request_2] \<and>
   r_media request_1 = m_id media_550 \<and> r_media request_2 = m_id media_550"
proof -
  have first: "body_mediaId movie_550 = 550" by (simp add: movie_550_def)
  have later: "\<forall>c\<in>set [(manager, movie_550)]. body_mediaId (snd c) = 550"
    by (simp add: movie_550_def)
  have unknown: "findOne_media 550 empty_store = None"
    by (simp add: findOne_media_def empty_store_def)
  have lookup: "(if body_mediaType movie_550 = ''movie'' then getMovie tmdb_echo 550
                 else getTvShow tmdb_echo 550) = Inr \<lparr>d_id = 550, d_tvdb_id = None\<rparr>"
    by (simp add: tmdb_echo_def movie_550_def)
  have echo: "d_id \<lparr>d_id = 550, d_tvdb_id = None\<rparr> = 550" by simp
  have run: "create_all tmdb_echo [(requester, movie_550), (manager, movie_550)] empty_store =
     ([Inr (201, request_1, media_550), Inr (201, request_2, media_550)], store_2)"
    by (simp add: create_request_def lookup_or_create_def findOne_media_def save_media_def
        create_movie_def insert_request_def initial_status_def Let_def tmdb_echo_def
        requester_def manager_def movie_550_def empty_store_def request_1_def request_2_def
        media_550_def store_2_def)
  show ?thesis
    using media_created_once [OF first later unknown lookup echo, of requester]
      first unknown run
    by (simp add: tmdb_echo_def store_2_def empty_store_def request_1_def request_2_def
        media_550_def)
qed

section \<open>Failures\<close>

text \<open>
  Claim C1, as the handlers have it. Whenever a handler reports a failure, the request
  table and its next id are as before and every Media row that existed is unchanged and in
  place. A failed Delete, Change-status, Get or List leaves the whole store unchanged, and
  so does a failed Create whose Media was already in the store or whose metadata lookup
  failed.
\<close>

theorem failure_keeps_rows:
  "(\<forall>e st'. create_request tmdb user body st = (Inl e, st') \<longrightarrow>
      requests st' = requests st \<and> nextRequestId st' = nextRequestId st \<and>
      take (length (medias st)) (medias st') = medias st \<and>
      (findOne_media (body_mediaId body) st \<noteq> None \<longrightarrow> st' = st) \<and>
      (isl (if body_mediaType body = ''movie'' then getMovie tmdb (body_mediaId body)
            else getTvShow tmdb (body_mediaId body)) \<longrightarrow> st' = st)) \<and>
   (\<forall>e st'. remove_request sv user requestId st = (Inl e, st') \<longrightarrow> st' = st) \<and>
   (\<forall>e st'. change_status requestId status st = (Inl e, st') \<longrightarrow> st' = st) \<and>
   (\<forall>e st'. get_request requestId st = (Inl e, st') \<longrightarrow> st' = st) \<and>
   (\<forall>e st'. list_requests user st = (Inl e, st') \<longrightarrow> st' = st)"
proof -
  have rows: "\<forall>e st'. create_request tmdb user body st = (Inl e, st') \<longrightarrow>
      requests st' = requests st \<and> nextRequestId st' = nextRequestId st \<and>
      take (length (medias st)) (medias st') = medias st \<and>
      (findOne_media (body_mediaId body) st \<noteq> None \<longrightarrow> st' = st)"
    using create_request_failure[of tmdb user body st] by fastforce
  have "isl (if body_mediaType body = ''movie'' then getMovie tmdb (body_mediaId body)
            else getTvShow tmdb (body_mediaId body)) \<Longrightarrow>
        snd (create_request tmdb user body st) = st"
    by (cases "if body_mediaType body = ''movie'' then getMovie tmdb (body_mediaId body)
               else getTvShow tmdb (body_mediaId body)")
       (simp_all add: create_request_def)
  then have create: "\<forall>e st'. create_request tmdb user body st = (Inl e, st') \<longrightarrow>
      requests st' = requests st \<and> nextRequestId st' = nextRequestId st \<and>
      take (length (medias st)) (medias st') = medias st \<and>
      (findOne_media (body_mediaId body) st \<noteq> None \<longrightarrow> st' = st) \<and>
      (isl (if body_mediaType body = ''movie'' then getMovie tmdb (body_mediaId body)
            else getTvShow tmdb (body_mediaId body)) \<longrightarrow> st' = st)"
    using rows by fastforce
  have remove: "\<forall>e st'. remove_request sv user requestId st = (Inl e, st') \<longrightarrow> st' = st"
    by (auto simp: remove_request_def split: option.splits if_splits)
  have change: "\<forall>e st'. change_status requestId status st = (Inl e, st') \<longrightarrow> st' = st"
    by (auto simp: change_status_def Let_def split: option.splits)
  have get: "\<forall>e st'. get_request requestId st = (Inl e, st') \<longrightarrow> st' = st"
    by (auto simp: get_request_def split: option.splits)
  have list: "\<forall>e st'. list_requests user st = (Inl e, st') \<longrightarrow> st' = st"
    by (simp add: list_requests_def Let_def)
  show ?thesis using create remove change get list by blast
qed

text \<open>
  Three failures on a store with two tv requests: a Create for seasons that are all
  requested, a Delete of an unknown id and a Change-status of an unknown id. The store is
  the same after each.
\<close>

theorem failure_keeps_rows_witness:
  "create_request tmdb_echo requester (tv_seasons [1, 3])
       (store_tv [tv_request 1 [1, 2], tv_request 2 [3]]) =
     (Inl (500, ''No seasons available to request''),
      store_tv [tv_request 1 [1, 2], tv_request 2 [3]]) \<and>
   findOne_media (body_mediaId (tv_seasons [1, 3]))
       (store_tv [tv_request 1 [1, 2], tv_request 2 [3]]) \<noteq> None \<and>
   remove_request enum_values requester 9 (store_tv [tv_request 1 [1, 2], tv_request 2 [3]]) =
     (Inl (404, ''Request not found''), store_tv [tv_request 1 [1, 2], tv_request 2 [3]]) \<and>
   change_status 9 ''approve'' (store_tv [tv_request 1 [1, 2], tv_request 2 [3]]) =
     (Inl (404, ''Request not found''), store_tv [tv_request 1 [1, 2], tv_request 2 [3]]) \<and>
   get_request 9 (store_tv [tv_request 1 [1, 2], tv_request 2 [3]]) =
     (Inl (404, ''Request not found''), store_tv [tv_request 1 [1, 2], tv_request 2 [3]])"
  using failure_keeps_rows [of tmdb_echo requester "tv_seasons [1, 3]"
      "store_tv [tv_request 1 [1, 2], tv_request 2 [3]]" enum_values 9 "''approve''"]
  by (simp add: create_request_def lookup_or_create_def findOne_media_def
      create_tv_def initial_status_def Let_def tmdb_echo_def requests_of_def combine_seasons_def
      remove_request_def change_status_def get_request_def findOneOrFail_def
      requester_def tv_seasons_def tv_request_def media_1399_def store_tv_def)

text \<open>
  Claim C1 as stated fails: a Create with the unrecognised mediaType \<open>book\<close> on the empty
  store reports 500 \<open>Invalid media type\<close>, and the store then holds a Media row that was
  not there before.
\<close>

theorem create_failure_saves_media:
  "create_request tmdb_echo requester book_550 empty_store =
     (Inl (500, ''Invalid media type''),
      \<lparr>medias = [media_book], requests = [], nextMediaId = 2, nextRequestId = 1\<rparr>) \<and>
   medias empty_store = []"
  by (simp add: create_request_def lookup_or_create_def findOne_media_def save_media_def
      Let_def tmdb_echo_def requester_def book_550_def empty_store_def media_book_def)

section \<open>Deleting\<close>

text \<open>
  Claim C2. Take a numbering of the status enum in which pending is not above 0 and
  approved and declined are, and a Delete call on the id of an existing request whose
  status is one of the three enum members. If the caller holds the manage-requests
  permission, or is the requester of a pending request, the call answers 200 with the record
  as it was loaded, the row is removed and the id is no longer found. In every other case
  the call fails with 401 and the store is unchanged.
\<close>

theorem remove_request_authorization:
  assumes enc: "sv PENDING \<le> 0" "0 < sv APPROVED" "0 < sv DECLINED"
    and found: "findOneOrFail requestId st = Some request"
    and typed: "r_status request = Some s"
  shows "if hasPermission user MANAGE_REQUESTS \<or>
            (r_requestedBy request = u_id user \<and> s = PENDING)
         then remove_request sv user requestId st =
                (Inr (200, request),
                 st\<lparr>requests := filter (\<lambda>r. r_id r \<noteq> requestId) (requests st)\<rparr>) \<and>
              findOneOrFail requestId (snd (remove_request sv user requestId st)) = None
         else remove_request sv user requestId st =
                (Inl (401, ''You do not have permission to remove this request''), st)"
proof -
  have rid: "r_id request = requestId"
    using found find_key_Some[of r_id requestId "requests st" request]
    by (simp add: findOneOrFail_def)
  have gt: "status_gt_0 sv (r_status request) \<longleftrightarrow> s \<noteq> PENDING"
    using enc typed by (cases s) (simp_all add: status_gt_0_def)
  have none: "findOneOrFail requestId (delete_request requestId st) = None"
    by (simp add: findOneOrFail_def delete_request_def find_key_removed)
  show ?thesis
    using found rid gt none
    by (auto simp: remove_request_def delete_request_def)
qed

text \<open>
  The plain caller deletes the own pending request 1; request 2 is approved and belongs to
  the manager, so the same caller gets 401 for it.
\<close>

theorem remove_request_authorization_witness:
  "enum_values PENDING \<le> 0 \<and> 0 < enum_values APPROVED \<and> 0 < enum_values DECLINED \<and>
   findOneOrFail 1 store_2 = Some request_1 \<and> r_status request_1 = Some PENDING \<and>
   remove_request enum_values requester 1 store_2 =
     (Inr (200, request_1), store_2\<lparr>requests := [request_2]\<rparr>) \<and>
   findOneOrFail 2 store_2 = Some request_2 \<and> r_status request_2 = Some APPROVED \<and>
   remove_request enum_values requester 2 store_2 =
     (Inl (401, ''You do not have permission to remove this request''), store_2)"
proof -
  have enc: "enum_values PENDING \<le> 0" "0 < enum_values APPROVED" "0 < enum_values DECLINED"
    by (simp_all add: enum_values_def)
  have f1: "findOneOrFail 1 store_2 = Some request_1"
    by (simp add: findOneOrFail_def store_2_def request_1_def)
  have s1: "r_status request_1 = Some PENDING" by (simp add: request_1_def)
  have f2: "findOneOrFail 2 store_2 = Some request_2"
    by (simp add: findOneOrFail_def store_2_def request_1_def request_2_def)
  have s2: "r_status request_2 = Some APPROVED" by (simp add: request_2_def)
  have own: "r_requestedBy request_1 = u_id requester" "r_requestedBy request_2 \<noteq> u_id requester"
    "\<not> hasPermission requester MANAGE_REQUESTS"
    by (simp_all add: request_1_def request_2_def requester_def)
  have rest: "filter (\<lambda>r. r_id r \<noteq> 1) (requests store_2) = [request_2]"
    by (simp add: store_2_def request_1_def request_2_def)
  show ?thesis
    using remove_request_authorization [OF enc f1 s1, of requester]
      remove_request_authorization [OF enc f2 s2, of requester]
      enc f1 s1 f2 s2 own rest
    by simp
qed

text \<open>
  Two remarks on what the hypotheses leave out. For a request whose status is undefined,
  \<open>request.status > 0\<close> is false under every numbering, so the gate lets the requester
  through; no handler stores such a request, since each of them keeps every stored status
  defined. And under a numbering that puts pending above 0, the gate stops every caller
  without the manage-requests permission, the requester of a pending request included.
\<close>

lemma remove_request_undefined_status:
  assumes "findOneOrFail requestId st = Some request"
    and "r_status request = None" "r_requestedBy request = u_id user"
  shows "fst (remove_request sv user requestId st) = Inr (200, request)"
  using assms by (simp add: remove_request_def status_gt_0_def)

lemma remove_request_pending_above_0:
  assumes "findOneOrFail requestId st = Some request"
    and "r_status request = Some PENDING" "0 < sv PENDING"
    and "\<not> hasPermission user MANAGE_REQUESTS"
  shows "remove_request sv user requestId st =
           (Inl (401, ''You do not have permission to remove this request''), st)"
  using assms by (simp add: remove_request_def status_gt_0_def)

section \<open>Changing the status\<close>

text \<open>
  Claim C8. Change-status with the target approve on an existing request answers 200 with the
  request carrying the status approved, whatever its status was (pending in particular),
  and the stored row is that request. A second call with approve answers the same and
  leaves the store as the first call left it.
\<close>

theorem approve_idempotent:
  assumes found: "findOneOrFail requestId st = Some request"
  shows "\<exists>st'. change_status requestId ''approve'' st =
                 (Inr (200, request\<lparr>r_status := Some APPROVED\<rparr>), st') \<and>
               findOneOrFail requestId st' = Some (request\<lparr>r_status := Some APPROVED\<rparr>) \<and>
               change_status requestId ''approve'' st' =
                 (Inr (200, request\<lparr>r_status := Some APPROVED\<rparr>), st')"
proof -
  let ?r = "request\<lparr>r_status := Some APPROVED\<rparr>"
  let ?st = "update_request ?r st"
  have rid: "r_id request = requestId"
    using found find_key_Some[of r_id requestId "requests st" request]
    by (simp add: findOneOrFail_def)
  have first: "change_status requestId ''approve'' st = (Inr (200, ?r), ?st)"
    using found by (simp add: change_status_def newStatus_def Let_def)
  have upd: "\<And>st0. update_request ?r st0 =
      st0\<lparr>requests := map (\<lambda>x. if r_id x = requestId then ?r else x) (requests st0)\<rparr>"
    using rid update_request_defined[of ?r APPROVED] by simp
  have again: "findOneOrFail requestId ?st = Some ?r"
    using found rid find_key_replaced[of r_id requestId "requests st" request ?r]
    by (simp add: findOneOrFail_def upd)
  have "update_request ?r ?st = ?st"
    using rid replace_twice[of r_id ?r requestId "requests st"]
    by (simp add: upd)
  then have "change_status requestId ''approve'' ?st = (Inr (200, ?r), ?st)"
    using again by (simp add: change_status_def newStatus_def Let_def)
  then show ?thesis using first again by blast
qed

text \<open>The pending request 1 is approved by the first call and stays so after the second.\<close>

theorem approve_idempotent_witness:
  "findOneOrFail 1 store_1 = Some request_1 \<and> r_status request_1 = Some PENDING \<and>
   change_status 1 ''approve'' store_1 =
     (Inr (200, request_1\<lparr>r_status := Some APPROVED\<rparr>),
      store_1\<lparr>requests := [request_1\<lparr>r_status := Some APPROVED\<rparr>]\<rparr>) \<and>
   change_status 1 ''approve'' (store_1\<lparr>requests := [request_1\<lparr>r_status := Some APPROVED\<rparr>]\<rparr>) =
     (Inr (200, request_1\<lparr>r_status := Some APPROVED\<rparr>),
      store_1\<lparr>requests := [request_1\<lparr>r_status := Some APPROVED\<rparr>]\<rparr>)"
proof -
  have f1: "findOneOrFail 1 store_1 = Some request_1"
    by (simp add: findOneOrFail_def store_1_def request_1_def)
  have first: "change_status 1 ''approve'' store_1 =
     (Inr (200, request_1\<lparr>r_status := Some APPROVED\<rparr>),
      store_1\<lparr>requests := [request_1\<lparr>r_status := Some APPROVED\<rparr>]\<rparr>)"
    using f1
    by (simp add: change_status_def newStatus_def Let_def update_request_def store_1_def
        request_1_def)
  show ?thesis
    using approve_idempotent [OF f1] f1 first by (simp add: request_1_def)
qed

text \<open>
  Claim C9. Given unique request ids, a Change-status call on an unknown id fails with 404
  and leaves the store alone. On a known id it answers 200 with the loaded request in which
  only the status field is replaced: the seasons and their statuses are the loaded ones.
  The store differs from the one before only in that one row, and the row differs from the
  loaded request only in its status: it holds the new status when the segment names one and
  keeps its status otherwise.
\<close>

theorem change_status_frame:
  assumes keys: "distinct (map r_id (requests st))"
  shows "case findOneOrFail requestId st of
           None \<Rightarrow> change_status requestId status st = (Inl (404, ''Request not found''), st)
         | Some request \<Rightarrow>
             (\<exists>request' st'. change_status requestId status st = (Inr (200, request'), st') \<and>
                request' = request\<lparr>r_status := newStatus status\<rparr> \<and>
                r_seasons request' = r_seasons request \<and>
                map s_status (r_seasons request') = map s_status (r_seasons request) \<and>
                (\<exists>i<length (requests st). requests st ! i = request \<and>
                   st' = st\<lparr>requests := (requests st)
                            [i := request\<lparr>r_status := (case newStatus status of
                                                          None \<Rightarrow> r_status request
                                                        | Some s \<Rightarrow> Some s)\<rparr>]\<rparr>))"
proof (cases "findOneOrFail requestId st")
  case None
  then show ?thesis by (simp add: change_status_def)
next
  case (Some request)
  let ?r = "request\<lparr>r_status := newStatus status\<rparr>"
  let ?g = "\<lambda>x. case newStatus status of None \<Rightarrow> ?r\<lparr>r_status := r_status x\<rparr> | Some s \<Rightarrow> ?r"
  let ?stored = "request\<lparr>r_status := (case newStatus status of
                                            None \<Rightarrow> r_status request | Some s \<Rightarrow> Some s)\<rparr>"
  have rid: "r_id request = requestId"
    using Some find_key_Some[of r_id requestId "requests st" request]
    by (simp add: findOneOrFail_def)
  obtain i where i: "i < length (requests st)" "requests st ! i = request"
    "map (\<lambda>r. if r_id r = requestId then ?g r else r) (requests st) = (requests st)[i := ?g request]"
    using map_is_update[OF keys, of requestId request ?g] Some
    by (auto simp: findOneOrFail_def)
  have stored: "?g request = ?stored"
    by (cases "newStatus status") simp_all
  have "update_request ?r st =
          st\<lparr>requests := map (\<lambda>r. if r_id r = requestId then ?g r else r) (requests st)\<rparr>"
    using rid by (simp add: update_request_def)
  then have "change_status requestId status st =
          (Inr (200, ?r), st\<lparr>requests := (requests st)[i := ?stored]\<rparr>)"
    using Some i(3) stored by (simp add: change_status_def Let_def)
  then show ?thesis using Some i(1,2) by auto
qed

text \<open>
  Declining the tv request 1 of a store with two tv requests changes the status of that
  request only; its seasons stay pending and request 2 is untouched.
\<close>

theorem change_status_frame_witness:
  "distinct (map r_id (requests (store_tv [tv_request 1 [1, 2], tv_request 2 [3]]))) \<and>
   change_status 1 ''decline'' (store_tv [tv_request 1 [1, 2], tv_request 2 [3]]) =
     (Inr (200, (tv_request 1 [1, 2])\<lparr>r_status := Some DECLINED\<rparr>),
      store_tv [(tv_request 1 [1, 2])\<lparr>r_status := Some DECLINED\<rparr>, tv_request 2 [3]]) \<and>
   map s_status (r_seasons ((tv_request 1 [1, 2])\<lparr>r_status := Some DECLINED\<rparr>)) =
     [PENDING, PENDING]"
proof -
  have keys: "distinct (map r_id (requests (store_tv [tv_request 1 [1, 2], tv_request 2 [3]])))"
    by (simp add: store_tv_def tv_request_def)
  show ?thesis
    using change_status_frame [OF keys, of 1 "''decline''"] keys
    by (simp add: change_status_def findOneOrFail_def update_request_def newStatus_def Let_def
        store_tv_def tv_request_def)
qed

text \<open>
  Claim C10, as the handler has it. A Change-status call on an existing request with a
  status segment other than pending, approve and decline does not fail: the status of the
  loaded request is overwritten with the undefined value and the call answers 200 with that
  request. The save skips the undefined status, so the store still holds the request as it
  was loaded for the id, and with unique request ids the store is unchanged.
\<close>

theorem change_status_unrecognised:
  assumes found: "findOneOrFail requestId st = Some request"
    and other: "status \<notin> {''pending'', ''approve'', ''decline''}"
  shows "\<exists>st'. change_status requestId status st =
                 (Inr (200, request\<lparr>r_status := None\<rparr>), st') \<and>
               findOneOrFail requestId st' = Some request \<and>
               (distinct (map r_id (requests st)) \<longrightarrow> st' = st)"
proof -
  let ?r = "request\<lparr>r_status := None\<rparr>"
  let ?g = "\<lambda>x. ?r\<lparr>r_status := r_status x\<rparr>"
  let ?st = "st\<lparr>requests := map (\<lambda>x. if r_id x = requestId then ?g x else x) (requests st)\<rparr>"
  have rid: "r_id request = requestId"
    using found find_key_Some[of r_id requestId "requests st" request]
    by (simp add: findOneOrFail_def)
  have ns: "newStatus status = None" using other by (simp add: newStatus_def)
  have upd: "update_request ?r st = ?st"
    using rid update_request_undefined[of ?r st] by simp
  have first: "change_status requestId status st = (Inr (200, ?r), ?st)"
    using found ns upd by (simp add: change_status_def Let_def)
  have same: "?g request = request" by simp
  have stored: "findOneOrFail requestId ?st = Some request"
    using found rid find_key_mapped[of r_id requestId "requests st" request ?g]
    by (simp add: findOneOrFail_def)
  have "?st = st" if keys: "distinct (map r_id (requests st))"
  proof -
    obtain i where i: "i < length (requests st)" "requests st ! i = request"
      "map (\<lambda>x. if r_id x = requestId then ?g x else x) (requests st) =
         (requests st)[i := ?g request]"
      using map_is_update[OF keys, of requestId request ?g] found
      by (auto simp: findOneOrFail_def)
    have "(requests st)[i := ?g request] = requests st"
      using i(1,2) same by (metis list_update_id)
    then show ?thesis using i(3) by simp
  qed
  then show ?thesis using first stored by blast
qed

text \<open>
  The segment \<open>approved\<close> is none of the three names: the answer carries no status and the
  store is as before.
\<close>

theorem change_status_unrecognised_witness:
  "findOneOrFail 1 store_1 = Some request_1 \<and>
   ''approved'' \<notin> {''pending'', ''approve'', ''decline''} \<and>
   distinct (map r_id (requests store_1)) \<and>
   change_status 1 ''approved'' store_1 = (Inr (200, request_1\<lparr>r_status := None\<rparr>), store_1)"
proof -
  have f1: "findOneOrFail 1 store_1 = Some request_1"
    by (simp add: findOneOrFail_def store_1_def request_1_def)
  have other: "''approved'' \<notin> {''pending'', ''approve'', ''decline''}" by simp
  have keys: "distinct (map r_id (requests store_1))" by (simp add: store_1_def)
  have run: "change_status 1 ''approved'' store_1 =
     (Inr (200, request_1\<lparr>r_status := None\<rparr>), store_1)"
    using f1
    by (simp add: change_status_def newStatus_def Let_def update_request_def store_1_def
        request_1_def)
  show ?thesis
    using change_status_unrecognised [OF f1 other] f1 other keys run by simp
qed

text \<open>
  Claim C10 as stated fails: the undefined status is not what the store holds afterwards.
  After the call with the segment \<open>approved\<close> on the pending request 1, the request found
  for the id is still pending.
\<close>

theorem change_status_keeps_stored_status:
  "change_status 1 ''approved'' store_1 = (Inr (200, request_1\<lparr>r_status := None\<rparr>), store_1) \<and>
   findOneOrFail 1 (snd (change_status 1 ''approved'' store_1)) = Some request_1 \<and>
   r_status request_1 = Some PENDING"
  by (simp add: change_status_def newStatus_def Let_def update_request_def findOneOrFail_def
      store_1_def request_1_def)

end
